theory Spec2Isabelle
  imports Complex_Main
begin

section \<open>The HLS monitoring engine: data model\<close>

text \<open>
  A shallow embedding of \<^verbatim>\<open>backend/workers/monitor.js\<close>, of the probe worker
  \<^verbatim>\<open>processSegment\<close> and of the \<^verbatim>\<open>Stream\<close> schema with its pre-save hook.

  Conventions. A JavaScript Number that only ever holds an integer (counters, sequence
  numbers, millisecond clocks) is an \<open>int\<close>; a Number that can hold a fraction (bit
  rates, signal levels, frame rates) is a \<open>rat\<close>, so the rounding of IEEE doubles is not
  modelled. A field that may be \<^verbatim>\<open>undefined\<close>, \<^verbatim>\<open>null\<close> or \<^verbatim>\<open>NaN\<close> is an \<open>option\<close>.
  Reads of the clock and of the random generator are inputs. \<^verbatim>\<open>stream.save()\<close> is
  taken to run the pre-save hook and to resolve: a rejected save is a failure of the
  persistence layer, outside this model; with it, and with \<^verbatim>\<open>uri\<close> fields typed as
  strings, no exception reaches the outer \<^verbatim>\<open>catch\<close> of \<^verbatim>\<open>checkStream\<close>, whose handler
  is modelled on its own as \<open>fatalHandler\<close>.
\<close>

subsection \<open>Strings and numbers of the host language\<close>

definition digit_char :: "nat \<Rightarrow> char" where
  "digit_char d = ''0123456789'' ! d"

function show_nat :: "nat \<Rightarrow> string" where
  "show_nat n = (if n < 10 then [digit_char n] else show_nat (n div 10) @ [digit_char (n mod 10)])"
  by pat_completeness auto
termination
  by (relation "measure id") auto

text \<open>The text of an integer inside a template literal.\<close>

definition show_int :: "int \<Rightarrow> string" where
  "show_int i = (if i < 0 then CHR ''-'' # show_nat (nat (- i)) else show_nat (nat i))"

text \<open>\<^verbatim>\<open>${x}\<close> of a possibly undefined number.\<close>

definition show_opt :: "int option \<Rightarrow> string" where
  "show_opt x = (case x of None \<Rightarrow> ''undefined'' | Some i \<Rightarrow> show_int i)"

definition startsWith :: "string \<Rightarrow> string \<Rightarrow> bool" where
  "startsWith s p = (take (length p) s = p)"

fun lastIndexOf_from :: "char \<Rightarrow> string \<Rightarrow> int \<Rightarrow> int \<Rightarrow> int" where
  "lastIndexOf_from c [] i best = best"
| "lastIndexOf_from c (x # xs) i best = lastIndexOf_from c xs (i + 1) (if x = c then i else best)"

text \<open>\<^verbatim>\<open>s.lastIndexOf(c)\<close>: the last position of \<open>c\<close>, or \<open>-1\<close>.\<close>

definition lastIndexOf :: "string \<Rightarrow> char \<Rightarrow> int" where
  "lastIndexOf s c = lastIndexOf_from c s 0 (- 1)"

text \<open>\<^verbatim>\<open>s.substring(0, n)\<close> for \<open>n \<ge> 0\<close>.\<close>

definition substring0 :: "string \<Rightarrow> int \<Rightarrow> string" where
  "substring0 s n = take (nat n) s"

text \<open>Truthiness of a Number, and \<^verbatim>\<open>a || b\<close> on Numbers.\<close>

definition truthy :: "'a::zero option \<Rightarrow> bool" where
  "truthy x = (case x of None \<Rightarrow> False | Some v \<Rightarrow> v \<noteq> 0)"

definition js_or :: "'a::zero option \<Rightarrow> 'a option \<Rightarrow> 'a option" where
  "js_or a b = (if truthy a then a else b)"

text \<open>\<^verbatim>\<open>a || d\<close> with a Number \<open>d\<close> as the last alternative.\<close>

definition or_else :: "'a::zero option \<Rightarrow> 'a \<Rightarrow> 'a" where
  "or_else a d = (case a of None \<Rightarrow> d | Some v \<Rightarrow> if v = 0 then d else v)"

text \<open>Truthiness of a string: defined and not empty.\<close>

definition truthy_str :: "string option \<Rightarrow> bool" where
  "truthy_str x = (case x of None \<Rightarrow> False | Some s \<Rightarrow> s \<noteq> [])"

text \<open>\<^verbatim>\<open>x < n\<close> and \<^verbatim>\<open>x >= n\<close> on a possibly undefined Number: false when undefined.\<close>

definition js_lt :: "int option \<Rightarrow> int \<Rightarrow> bool" where
  "js_lt x n = (case x of None \<Rightarrow> False | Some v \<Rightarrow> v < n)"

definition js_ge :: "int option \<Rightarrow> int \<Rightarrow> bool" where
  "js_ge x n = (case x of None \<Rightarrow> False | Some v \<Rightarrow> v \<ge> n)"

subsection \<open>The Stream document\<close>

datatype status = Online | Offline | Error | Stale

datatype error_type =
    MANIFEST_RETRIEVAL | MEDIA_SEQUENCE | PLAYLIST_SIZE | PLAYLIST_CONTENT
  | SEGMENT_CONTINUITY | DISCONTINUITY_SEQUENCE | STALE_MANIFEST

record health =
  isStale :: bool
  lastManifestUpdate :: "int option"
  timeSinceLastUpdate :: int
  staleThreshold :: int
  mediaSequence :: int
  previousMediaSequence :: int
  sequenceJumps :: int
  sequenceResets :: int
  discontinuitySequence :: int
  discontinuityCount :: int
  segmentCount :: int
  targetDuration :: int
  playlistType :: string
  totalErrors :: int
  timeSinceLastError :: int

record video_stats =
  video_codec :: "string option"
  video_profile :: "string option"
  video_level :: "string option"
  video_width :: "int option"
  video_height :: "int option"
  video_pixFmt :: "string option"
  video_colorSpace :: "string option"
  video_bitRate :: "rat option"

record audio_stats =
  audio_codec :: "string option"
  audio_channels :: "int option"
  audio_sampleRate :: "int option"
  audio_bitRate :: "rat option"

record container_stats =
  container_formatName :: "string option"
  container_duration :: "rat option"
  container_size :: "int option"
  container_bitRate :: "int option"

text \<open>
  \<open>video\<close>, \<open>audio\<close> and \<open>container\<close> are nested paths of the schema. The code reads
  them with \<^verbatim>\<open>stream.stats?.video\<close> and tests \<^verbatim>\<open>!video\<close>, so the model has \<open>None\<close> for an
  undefined one; but on a document the persistence layer presents a nested path as an
  object even when nothing was stored in it: on a stream that was never probed they
  are \<open>Some noVideo\<close>, \<open>Some noAudio\<close> and \<open>Some noContainer\<close>, objects whose fields are
  all undefined.
\<close>

record stats =
  bandwidth :: "int option"
  resolution :: "string option"
  fps :: "rat option"
  video :: "video_stats option"
  audio :: "audio_stats option"
  container :: "container_stats option"

definition noVideo :: video_stats where
  "noVideo = \<lparr> video_codec = None, video_profile = None, video_level = None,
       video_width = None, video_height = None, video_pixFmt = None,
       video_colorSpace = None, video_bitRate = None \<rparr>"

definition noAudio :: audio_stats where
  "noAudio = \<lparr> audio_codec = None, audio_channels = None, audio_sampleRate = None,
       audio_bitRate = None \<rparr>"

definition noContainer :: container_stats where
  "noContainer = \<lparr> container_formatName = None, container_duration = None,
       container_size = None, container_bitRate = None \<rparr>"

record stream_error =
  eid :: string
  date :: int
  errorType :: error_type
  mediaType :: string
  variant :: string
  details :: string
  code :: "int option"

text \<open>
  \<open>streamErrors\<close> is the error ledger, oldest entry first. A missing ledger is the empty
  list: \<^verbatim>\<open>addError\<close> replaces the one by the other before it appends.
\<close>

record stream =
  sid :: string
  name :: string
  url :: string
  status :: status
  health :: health
  stats :: stats
  streamErrors :: "stream_error list"
  thumbnail :: "string option"
  lastChecked :: int

subsection \<open>The pre-save hook and \<^verbatim>\<open>save\<close>\<close>

text \<open>\<^verbatim>\<open>xs.slice(-n)\<close>: the last \<open>n\<close> elements, all of them when there are fewer.\<close>

definition slice_last :: "nat \<Rightarrow> 'a list \<Rightarrow> 'a list" where
  "slice_last n xs = drop (length xs - n) xs"

definition pre_save :: "stream \<Rightarrow> stream" where
  "pre_save s =
     (if length (streamErrors s) > 1000
      then s\<lparr>streamErrors := slice_last 1000 (streamErrors s)\<rparr>
      else s)"

definition save :: "stream \<Rightarrow> stream" where
  "save s = pre_save s"

subsection \<open>The scores\<close>

definition calculateHealthScore :: "stream \<Rightarrow> int" where
  "calculateHealthScore s =
     (let score = 100;
          h = health s;
          score = (if isStale h then score - 30 else score);
          score = (if sequenceJumps h > 0 then score - min (sequenceJumps h * 5) 20 else score);
          score = (if sequenceResets h > 0 then score - min (sequenceResets h * 10) 30 else score);
          score = (if totalErrors h > 0 then score - min (totalErrors h * 2) 20 else score);
          score = (if status s = Error then score - 40 else score);
          score = (if status s = Offline then score - 50 else score)
      in max 0 (min 100 score))"

definition calculateVideoScore :: "stream \<Rightarrow> int" where
  "calculateVideoScore s =
     (case video (stats s) of
        None \<Rightarrow> 50
      | Some v \<Rightarrow>
          (let score = 100;
               score = (if \<not> truthy_str (video_codec v) then score - 20 else score);
               score = (if truthy (video_width v) \<and> js_lt (video_width v) 720
                        then score - 10 else score);
               score = (if truthy (video_width v) \<and> js_ge (video_width v) 1920
                        then score + 0 else score)
           in max 0 (min 100 score)))"

definition calculateAudioScore :: "stream \<Rightarrow> int" where
  "calculateAudioScore s =
     (case audio (stats s) of
        None \<Rightarrow> 50
      | Some a \<Rightarrow>
          (let score = 100;
               score = (if \<not> truthy_str (audio_codec a) then score - 20 else score);
               score = (if truthy (audio_sampleRate a) \<and> js_lt (audio_sampleRate a) 44100
                        then score - 10 else score)
           in max 0 (min 100 score)))"

subsection \<open>The error ledger\<close>

text \<open>
  \<^verbatim>\<open>addError(stream, errorType, details, mediaType = 'VIDEO', code = null)\<close>. The first
  two arguments of the model are the results of \<^verbatim>\<open>generateErrorId()\<close> and of
  \<^verbatim>\<open>new Date()\<close>.
\<close>

text \<open>The \<^verbatim>\<open>error\<close> object that \<^verbatim>\<open>addError\<close> builds.\<close>

definition errorEntry ::
  "string \<Rightarrow> int \<Rightarrow> stream \<Rightarrow> error_type \<Rightarrow> string \<Rightarrow> string \<Rightarrow> int option \<Rightarrow> stream_error" where
  "errorEntry new_eid new_date s ty det mt cd =
     \<lparr> eid = new_eid, date = new_date, errorType = ty, mediaType = mt,
       variant = (case bandwidth (stats s) of None \<Rightarrow> ''unknown'' | Some b \<Rightarrow> show_int b),
       details = det, code = cd \<rparr>"

definition addError ::
  "string \<Rightarrow> int \<Rightarrow> stream \<Rightarrow> error_type \<Rightarrow> string \<Rightarrow> string \<Rightarrow> int option \<Rightarrow> stream" where
  "addError new_eid new_date s ty det mt cd =
     (let e = errorEntry new_eid new_date s ty det mt cd
      in s\<lparr> streamErrors := streamErrors s @ [e],
             health := (health s)\<lparr> totalErrors := totalErrors (health s) + 1,
                                    timeSinceLastError := 0 \<rparr> \<rparr>)"

section \<open>The poll cycle\<close>

subsection \<open>Manifests, poll state and the engine's surroundings\<close>

record variant_attributes =
  BANDWIDTH :: "int option"
  RESOLUTION :: "(int \<times> int) option"

record playlist =
  uri :: string
  attributes :: "variant_attributes option"

record segment =
  segment_uri :: string
  discontinuity :: bool

text \<open>The manifest of the playlist parser; a missing list is the empty list.\<close>

record manifest =
  playlists :: "playlist list"
  segments :: "segment list"
  manifest_mediaSequence :: "int option"
  manifest_targetDuration :: "int option"
  manifest_playlistType :: "string option"
  manifest_discontinuitySequence :: "int option"

text \<open>What \<^verbatim>\<open>fetchManifest\<close> throws: \<^verbatim>\<open>err.message\<close> and \<^verbatim>\<open>err.response?.status\<close>.\<close>

record fetch_error =
  message :: string
  response_status :: "int option"

record poll_state =
  lastPollTime :: int
  lastMediaSequence :: int
  consecutiveStales :: int

record signal =
  signal_id :: string
  signal_timestamp :: int
  signal_video :: rat
  signal_audio :: rat
  signal_videoBitrate :: rat
  signal_audioBitrate :: rat
  signal_fps :: rat

datatype event =
    StreamUpdate stream
  | StreamSignal signal
  | StreamSprite string string

text \<open>The document handed to \<^verbatim>\<open>MetricsHistory.create\<close>.\<close>

record metrics =
  metrics_streamId :: string
  metrics_healthScore :: int
  metrics_videoScore :: int
  metrics_audioScore :: int
  metrics_videoBitrate :: rat
  metrics_audioBitrate :: rat
  metrics_videoLevel :: rat
  metrics_audioLevel :: rat
  metrics_fps :: rat
  metrics_status :: status
  metrics_mediaSequence :: int
  metrics_segmentCount :: int
  metrics_errorCount :: int

text \<open>
  An external invocation that has been started and has not called back yet: the
  \<^verbatim>\<open>ffprobe\<close> run or the frame extraction, for a stream id and a segment URL.
\<close>

datatype task = ProbeTask string string | SpriteTask string string

text \<open>
  The process-wide state around a stream: the \<^verbatim>\<open>streamState\<close> map, the
  \<^verbatim>\<open>MetricsHistory\<close> collection, the events emitted on \<^verbatim>\<open>io\<close> and the external
  invocations in flight.
\<close>

record world =
  streamState :: "string \<Rightarrow> poll_state option"
  metricsHistory :: "metrics list"
  emitted :: "event list"
  in_flight :: "task list"

text \<open>
  What one call of \<^verbatim>\<open>checkStream\<close> reads from outside: the clock at entry, the result
  of fetching the stream's URL and of fetching a variant URL, the id and date of a new
  ledger entry (by the position the entry takes in the ledger in memory, so that two
  entries of one cycle get values of their own), the two later reads of the clock, and
  whether \<^verbatim>\<open>MetricsHistory.create\<close> resolves.
\<close>

record cycle_input =
  now :: int
  masterFetch :: "fetch_error + manifest"
  variantFetch :: "string \<Rightarrow> fetch_error + manifest"
  errorId :: "nat \<Rightarrow> string"
  errorDate :: "nat \<Rightarrow> int"
  manifestDate :: int
  checkedDate :: int
  metricsOk :: bool

definition recordError ::
  "cycle_input \<Rightarrow> stream \<Rightarrow> error_type \<Rightarrow> string \<Rightarrow> string \<Rightarrow> int option \<Rightarrow> stream" where
  "recordError inp s ty det mt cd =
     addError (errorId inp (length (streamErrors s))) (errorDate inp (length (streamErrors s)))
       s ty det mt cd"

definition resolveVariantUrl :: "string \<Rightarrow> string \<Rightarrow> string" where
  "resolveVariantUrl masterUrl variantUri =
     (if startsWith variantUri ''http'' then variantUri
      else (let baseUrl = substring0 masterUrl (lastIndexOf masterUrl CHR ''/'' + 1)
            in baseUrl @ variantUri))"

subsection \<open>Fetching: the master playlist and its first variant\<close>

text \<open>
  The two fetch sections of \<^verbatim>\<open>checkStream\<close>. The result is either the stream with the
  details, media type and code of the \<^verbatim>\<open>MANIFEST_RETRIEVAL\<close> error to record, or the
  stream, the URL of the media playlist and its manifest.
\<close>

definition fetchPhase ::
  "cycle_input \<Rightarrow> stream \<Rightarrow> (stream \<times> string \<times> string \<times> int option) + (stream \<times> string \<times> manifest)" where
  "fetchPhase inp s =
     (case masterFetch inp of
        Inl err \<Rightarrow>
          Inl (s, ''Failed to fetch manifest: '' @ message err, ''MASTER'', response_status err)
      | Inr m \<Rightarrow>
          (case playlists m of
             [] \<Rightarrow> Inr (s, url s, m)
           | v # _ \<Rightarrow>
               (let variantUrl = resolveVariantUrl (url s) (uri v);
                    bw = (case attributes v of None \<Rightarrow> None | Some a \<Rightarrow> BANDWIDTH a);
                    s = (if truthy bw then s\<lparr>stats := (stats s)\<lparr>bandwidth := bw\<rparr>\<rparr> else s);
                    s = (case attributes v of
                           None \<Rightarrow> s
                         | Some a \<Rightarrow>
                             (case RESOLUTION a of
                                None \<Rightarrow> s
                              | Some (w, h) \<Rightarrow>
                                  s\<lparr>stats := (stats s)
                                      \<lparr>resolution := Some (show_int w @ ''x'' @ show_int h)\<rparr>\<rparr>))
                in case variantFetch inp variantUrl of
                     Inl err \<Rightarrow>
                       Inl (s, ''Failed to fetch variant: '' @ message err, ''VIDEO'',
                            response_status err)
                   | Inr m' \<Rightarrow> Inr (s, variantUrl, m'))))"

subsection \<open>Short-circuit: record the error, set the status, save, emit, return\<close>

definition abortCycle ::
  "cycle_input \<Rightarrow> stream \<Rightarrow> world \<Rightarrow> error_type \<Rightarrow> string \<Rightarrow> string \<Rightarrow> int option
     \<Rightarrow> stream \<times> world" where
  "abortCycle inp s w ty det mt cd =
     (let s = recordError inp s ty det mt cd;
          s = s\<lparr>status := Error\<rparr>;
          s = save s
      in (s, w\<lparr>emitted := emitted w @ [StreamUpdate s]\<rparr>))"

subsection \<open>The analysis of the media playlist\<close>

definition stalenessCheck ::
  "cycle_input \<Rightarrow> int \<Rightarrow> stream \<Rightarrow> poll_state \<Rightarrow> stream \<times> poll_state" where
  "stalenessCheck inp currentSequence s st =
     (if currentSequence = lastMediaSequence st then
        (let st = st\<lparr>consecutiveStales := consecutiveStales st + 1\<rparr>;
             s = s\<lparr>health := (health s)\<lparr>timeSinceLastUpdate := now inp - lastPollTime st\<rparr>\<rparr>
         in if timeSinceLastUpdate (health s) > staleThreshold (health s) then
              (let s = s\<lparr>health := (health s)\<lparr>isStale := True\<rparr>\<rparr>;
                   s = s\<lparr>status := Stale\<rparr>;
                   s = recordError inp s STALE_MANIFEST
                         (''Playlist stale for '' @ show_int (timeSinceLastUpdate (health s)) @ ''ms'')
                         ''VIDEO'' None
               in (s, st))
            else (s, st))
      else
        (let s = s\<lparr>health := (health s)\<lparr>isStale := False,
                                          lastManifestUpdate := Some (manifestDate inp),
                                          timeSinceLastUpdate := 0\<rparr>\<rparr>;
             st = st\<lparr>consecutiveStales := 0\<rparr>;
             s = s\<lparr>status := Online\<rparr>
         in (s, st)))"

definition sequenceChecks :: "cycle_input \<Rightarrow> int \<Rightarrow> stream \<Rightarrow> poll_state \<Rightarrow> stream" where
  "sequenceChecks inp currentSequence s st =
     (if lastMediaSequence st \<noteq> - 1 then
        (let expectedSequence = lastMediaSequence st + 1;
             s = (if currentSequence > expectedSequence then
                    (let gap = currentSequence - expectedSequence;
                         s = s\<lparr>health := (health s)\<lparr>sequenceJumps := sequenceJumps (health s) + 1\<rparr>\<rparr>
                     in recordError inp s MEDIA_SEQUENCE
                          (''Sequence jumped from '' @ show_int (lastMediaSequence st) @ '' to ''
                             @ show_int currentSequence @ '' (gap: '' @ show_int gap @ '')'')
                          ''VIDEO'' None)
                  else s);
             s = (if currentSequence < lastMediaSequence st then
                    (let s = s\<lparr>health := (health s)\<lparr>sequenceResets := sequenceResets (health s) + 1\<rparr>\<rparr>
                     in recordError inp s MEDIA_SEQUENCE
                          (''Sequence reset from '' @ show_int (lastMediaSequence st) @ '' to ''
                             @ show_int currentSequence)
                          ''VIDEO'' None)
                  else s)
         in s)
      else s)"

definition discontinuityCheck :: "manifest \<Rightarrow> stream \<Rightarrow> stream" where
  "discontinuityCheck m s =
     (let currentDiscontinuityCount = int (length (filter discontinuity (segments m)));
          s = (case manifest_discontinuitySequence m of
                 None \<Rightarrow> s
               | Some d \<Rightarrow>
                   if discontinuitySequence (health s) \<noteq> d
                   then s\<lparr>health := (health s)\<lparr>discontinuitySequence := d\<rparr>\<rparr> else s)
      in s\<lparr>health := (health s)\<lparr>discontinuityCount := currentDiscontinuityCount\<rparr>\<rparr>)"

definition updateHealth :: "manifest \<Rightarrow> int \<Rightarrow> stream \<Rightarrow> poll_state \<Rightarrow> stream" where
  "updateHealth m currentSequence s st =
     s\<lparr>health := (health s)
         \<lparr>previousMediaSequence := lastMediaSequence st,
          mediaSequence := currentSequence,
          segmentCount := int (length (segments m)),
          targetDuration := or_else (manifest_targetDuration m) 0,
          playlistType := (case manifest_playlistType m of
                             None \<Rightarrow> ''LIVE''
                           | Some t \<Rightarrow> if t = [] then ''LIVE'' else t)\<rparr>\<rparr>"

text \<open>The URL of the latest segment, made absolute against the playlist's URL.\<close>

definition latestSegmentUrl :: "string \<Rightarrow> manifest \<Rightarrow> string" where
  "latestSegmentUrl variantUrl m =
     (let segmentUrl = segment_uri (last (segments m))
      in if \<not> startsWith segmentUrl ''http''
         then substring0 variantUrl (lastIndexOf variantUrl CHR ''/'' + 1) @ segmentUrl
         else segmentUrl)"

text \<open>
  \<^verbatim>\<open>processSegment(stream, segmentUrl, io)\<close> as the cycle sees it: it starts the probe and
  the frame extraction and returns; the callbacks run later (section on the probe
  worker). Nothing is awaited and nothing is counted before an invocation starts.
\<close>

definition processSegment :: "stream \<Rightarrow> string \<Rightarrow> world \<Rightarrow> world" where
  "processSegment s segmentUrl w =
     w\<lparr>in_flight := in_flight w @ [ProbeTask (sid s) segmentUrl, SpriteTask (sid s) segmentUrl]\<rparr>"

definition signalLevel :: "rat \<Rightarrow> rat \<Rightarrow> rat" where
  "signalLevel bitrate full = min 100 (max 0 ((bitrate / full) * 100))"

definition metricsOf :: "stream \<Rightarrow> int \<Rightarrow> int \<Rightarrow> metrics" where
  "metricsOf s currentSequence segCount =
     (let videoBitrate =
            or_else
              (js_or (case video (stats s) of None \<Rightarrow> None | Some v \<Rightarrow> video_bitRate v)
                     (case container (stats s) of
                        None \<Rightarrow> None
                      | Some c \<Rightarrow> map_option (\<lambda>b. rat_of_int b * (85 / 100)) (container_bitRate c)))
              0;
          audioBitrate =
            or_else (case audio (stats s) of None \<Rightarrow> None | Some a \<Rightarrow> audio_bitRate a) 128000;
          videoLevel = signalLevel videoBitrate 5000000;
          audioLevel = signalLevel audioBitrate 320000
      in \<lparr> metrics_streamId = sid s,
           metrics_healthScore = calculateHealthScore s,
           metrics_videoScore = calculateVideoScore s,
           metrics_audioScore = calculateAudioScore s,
           metrics_videoBitrate = videoBitrate,
           metrics_audioBitrate = audioBitrate,
           metrics_videoLevel = videoLevel,
           metrics_audioLevel = audioLevel,
           metrics_fps = or_else (fps (stats s)) 0,
           metrics_status = status s,
           metrics_mediaSequence = currentSequence,
           metrics_segmentCount = segCount,
           metrics_errorCount = totalErrors (health s) \<rparr>)"

text \<open>The cycle from the staleness check to the final update event.\<close>

definition analysePlaylist ::
  "cycle_input \<Rightarrow> stream \<Rightarrow> world \<Rightarrow> poll_state \<Rightarrow> string \<Rightarrow> manifest \<Rightarrow> stream \<times> world" where
  "analysePlaylist inp s w st variantUrl m =
     (let currentSequence = or_else (manifest_mediaSequence m) 0;
          segCount = int (length (segments m));
          (s, st) = stalenessCheck inp currentSequence s st;
          s = sequenceChecks inp currentSequence s st;
          s = discontinuityCheck m s;
          s = updateHealth m currentSequence s st;
          st = st\<lparr>lastMediaSequence := currentSequence, lastPollTime := now inp\<rparr>;
          w = w\<lparr>streamState := (streamState w)(sid s \<mapsto> st)\<rparr>;
          w = processSegment s (latestSegmentUrl variantUrl m) w;
          s = s\<lparr>lastChecked := checkedDate inp\<rparr>;
          s = save s;
          w = (if metricsOk inp
               then w\<lparr>metricsHistory := metricsHistory w @ [metricsOf s currentSequence segCount]\<rparr>
               else w)
      in (s, w\<lparr>emitted := emitted w @ [StreamUpdate s]\<rparr>))"

definition initialState :: poll_state where
  "initialState = \<lparr> lastPollTime = 0, lastMediaSequence = - 1, consecutiveStales = 0 \<rparr>"

text \<open>\<^verbatim>\<open>streamState.get(id) || { ... }\<close>: the tracked state, or the initial one.\<close>

definition getState :: "world \<Rightarrow> stream \<Rightarrow> poll_state" where
  "getState w s = (case streamState w (sid s) of None \<Rightarrow> initialState | Some st \<Rightarrow> st)"

definition checkStream :: "cycle_input \<Rightarrow> stream \<Rightarrow> world \<Rightarrow> stream \<times> world" where
  "checkStream inp s w =
     (let st = getState w s
      in case fetchPhase inp s of
           Inl (s, det, mt, cd) \<Rightarrow> abortCycle inp s w MANIFEST_RETRIEVAL det mt cd
         | Inr (s, variantUrl, m) \<Rightarrow>
             if segments m = []
             then abortCycle inp s w PLAYLIST_CONTENT ''Playlist has no segments'' ''VIDEO'' None
             else analysePlaylist inp s w st variantUrl m)"

text \<open>
  The handler of the outer \<^verbatim>\<open>catch\<close> of \<^verbatim>\<open>checkStream\<close>, for an exception with
  message \<open>msg\<close>.
\<close>

definition fatalHandler :: "cycle_input \<Rightarrow> string \<Rightarrow> stream \<Rightarrow> world \<Rightarrow> stream \<times> world" where
  "fatalHandler inp msg s w =
     (let s = s\<lparr>status := Error\<rparr>;
          s = recordError inp s MANIFEST_RETRIEVAL msg ''VIDEO'' None;
          s = save s
      in (s, w\<lparr>emitted := emitted w @ [StreamUpdate s]\<rparr>))"

text \<open>
  \<^verbatim>\<open>monitorLoop\<close>: the streams one after the other, each with the input of its own
  cycle.
\<close>

fun monitorLoop :: "(cycle_input \<times> stream) list \<Rightarrow> world \<Rightarrow> stream list \<times> world" where
  "monitorLoop [] w = ([], w)"
| "monitorLoop ((inp, s) # rest) w =
     (let (s', w') = checkStream inp s w;
          (ss, w'') = monitorLoop rest w'
      in (s' # ss, w''))"

text \<open>
  The successive cycles of one stream: each cycle loads the document that the previous
  one saved.
\<close>

fun pollCycles :: "cycle_input list \<Rightarrow> stream \<Rightarrow> world \<Rightarrow> stream \<times> world" where
  "pollCycles [] s w = (s, w)"
| "pollCycles (inp # inps) s w = (let (s', w') = checkStream inp s w in pollCycles inps s' w')"

section \<open>The probe worker\<close>

subsection \<open>The metadata of a probe\<close>

text \<open>
  The values that \<^verbatim>\<open>processSegment\<close> passes through \<^verbatim>\<open>parseInt\<close>, \<^verbatim>\<open>parseFloat\<close>,
  \<^verbatim>\<open>eval\<close> or a multiplication are kept as their text; the others are typed.
\<close>

record probe_format =
  format_name :: "string option"
  format_duration :: "string option"
  format_size :: "string option"
  format_bit_rate :: "string option"

record probe_stream =
  codec_type :: "string option"
  codec_name :: "string option"
  profile :: "string option"
  level :: "string option"
  width :: "int option"
  height :: "int option"
  pix_fmt :: "string option"
  color_space :: "string option"
  color_primaries :: "string option"
  bit_rate :: "string option"
  r_frame_rate :: "string option"
  channels :: "int option"
  sample_rate :: "string option"

record metadata =
  format :: "probe_format option"
  streams :: "probe_stream list"

text \<open>
  The functions of the host language that the worker calls, as parameters: \<open>None\<close> is
  \<^verbatim>\<open>NaN\<close>, and \<^verbatim>\<open>eval\<close> returns a Number or throws (\<open>Inl\<close>, with the message).
\<close>

record js_builtins =
  parseInt :: "string \<Rightarrow> int option"
  parseFloat :: "string \<Rightarrow> rat option"
  toNumber :: "string \<Rightarrow> rat option"
  js_eval :: "string \<Rightarrow> string + rat option"

text \<open>An undefined argument gives \<^verbatim>\<open>NaN\<close>.\<close>

definition on_raw :: "(string \<Rightarrow> 'a option) \<Rightarrow> string option \<Rightarrow> 'a option" where
  "on_raw f x = (case x of None \<Rightarrow> None | Some t \<Rightarrow> f t)"

text \<open>\<^verbatim>\<open>a || b\<close> on strings.\<close>

definition str_or :: "string option \<Rightarrow> string option \<Rightarrow> string option" where
  "str_or a b = (if truthy_str a then a else b)"

subsection \<open>The callback of \<^verbatim>\<open>ffprobe\<close>\<close>

definition containerStats :: "js_builtins \<Rightarrow> metadata \<Rightarrow> stream \<Rightarrow> stream" where
  "containerStats js md s =
     (case format md of
        None \<Rightarrow> s
      | Some f \<Rightarrow>
          s\<lparr>stats := (stats s)\<lparr>container := Some
            \<lparr> container_formatName = format_name f,
              container_duration = Some (or_else (on_raw (parseFloat js) (format_duration f)) 0),
              container_size = Some (or_else (on_raw (parseInt js) (format_size f)) 0),
              container_bitRate = Some (or_else (on_raw (parseInt js) (format_bit_rate f)) 0) \<rparr>\<rparr>\<rparr>)"

text \<open>
  The video section: the stream and the video bit rate, or \<open>Inl\<close> with the stream as
  it is in memory when \<^verbatim>\<open>eval\<close> throws.
\<close>

definition videoStats :: "js_builtins \<Rightarrow> metadata \<Rightarrow> stream \<Rightarrow> stream + stream \<times> rat" where
  "videoStats js md s =
     (case find (\<lambda>p. codec_type p = Some ''video'') (streams md) of
        None \<Rightarrow> Inr (s, 0)
      | Some v \<Rightarrow>
          (let s = s\<lparr>stats := (stats s)
                     \<lparr>resolution := Some (show_opt (width v) @ ''x'' @ show_opt (height v))\<rparr>\<rparr>
           in case (case r_frame_rate v of
                      None \<Rightarrow> Inr (Some 0)
                    | Some t \<Rightarrow> if t = [] then Inr (Some 0) else js_eval js t) of
                Inl msg \<Rightarrow> Inl s
              | Inr rate \<Rightarrow>
                  (let s = s\<lparr>stats := (stats s)\<lparr>fps := rate\<rparr>\<rparr>;
                       videoBitrate =
                         or_else
                           (js_or (map_option rat_of_int (on_raw (parseInt js) (bit_rate v)))
                                  (case format md of
                                     None \<Rightarrow> None
                                   | Some f \<Rightarrow>
                                       map_option (\<lambda>b. b * (85 / 100))
                                         (on_raw (toNumber js) (format_bit_rate f))))
                           0;
                       s = s\<lparr>stats := (stats s)\<lparr>video := Some
                             \<lparr> video_codec = codec_name v,
                               video_profile = profile v,
                               video_level = level v,
                               video_width = width v,
                               video_height = height v,
                               video_pixFmt = pix_fmt v,
                               video_colorSpace =
                                 str_or (color_space v) (str_or (color_primaries v) (Some ''unknown'')),
                               video_bitRate = Some videoBitrate \<rparr>\<rparr>\<rparr>
                   in Inr (s, videoBitrate))))"

definition audioStats :: "js_builtins \<Rightarrow> metadata \<Rightarrow> stream \<Rightarrow> stream \<times> rat" where
  "audioStats js md s =
     (case find (\<lambda>p. codec_type p = Some ''audio'') (streams md) of
        None \<Rightarrow> (s, 0)
      | Some a \<Rightarrow>
          (let audioBitrate = or_else (on_raw (parseInt js) (bit_rate a)) 128000;
               s = s\<lparr>stats := (stats s)\<lparr>audio := Some
                     \<lparr> audio_codec = codec_name a,
                       audio_channels = channels a,
                       audio_sampleRate = Some (or_else (on_raw (parseInt js) (sample_rate a)) 0),
                       audio_bitRate = Some (rat_of_int audioBitrate) \<rparr>\<rparr>\<rparr>
           in (s, rat_of_int audioBitrate)))"

text \<open>
  The handler for a probe that succeeded, with the draw \<open>rnd\<close> of \<^verbatim>\<open>Math.random()\<close> and
  the clock \<open>ts\<close>. When \<^verbatim>\<open>eval\<close> throws, the \<^verbatim>\<open>catch\<close> logs: nothing is emitted or
  saved.
\<close>

definition probeSuccess ::
  "js_builtins \<Rightarrow> metadata \<Rightarrow> rat \<Rightarrow> int \<Rightarrow> stream \<Rightarrow> world \<Rightarrow> stream \<times> world" where
  "probeSuccess js md rnd ts s w =
     (let s = containerStats js md s
      in case videoStats js md s of
           Inl s \<Rightarrow> (s, w)
         | Inr (s, videoBitrate) \<Rightarrow>
             (let (s, audioBitrate) = audioStats js md s;
                  videoLevel = signalLevel videoBitrate 5000000;
                  audioLevel = signalLevel audioBitrate 320000;
                  variation = (rnd - 1 / 2) * 10;
                  sig = \<lparr> signal_id = sid s,
                          signal_timestamp = ts,
                          signal_video = max 0 (min 100 (videoLevel + variation)),
                          signal_audio = max 0 (min 100 (audioLevel + variation)),
                          signal_videoBitrate = videoBitrate,
                          signal_audioBitrate = audioBitrate,
                          signal_fps = or_else (fps (stats s)) 0 \<rparr>;
                  s = save s
              in (s, w\<lparr>emitted := emitted w @ [StreamSignal sig, StreamUpdate s]\<rparr>)))"

text \<open>The callback: the invocation is over; an error is logged and changes nothing.\<close>

definition probeCallback ::
  "js_builtins \<Rightarrow> string + metadata \<Rightarrow> rat \<Rightarrow> int \<Rightarrow> task \<Rightarrow> stream \<Rightarrow> world \<Rightarrow> stream \<times> world" where
  "probeCallback js res rnd ts t s w =
     (let w = w\<lparr>in_flight := remove1 t (in_flight w)\<rparr>
      in case res of
           Inl err \<Rightarrow> (s, w)
         | Inr md \<Rightarrow> probeSuccess js md rnd ts s w)"

subsection \<open>The callbacks of the frame extraction\<close>

text \<open>
  The extraction ends with the new thumbnail reference (\<open>None\<close> when the image file
  cannot be read, which the handler logs), or fails with a message.
\<close>

datatype sprite_result = SpriteEnd "string option" | SpriteFailed string

definition spriteCallback :: "sprite_result \<Rightarrow> task \<Rightarrow> stream \<Rightarrow> world \<Rightarrow> stream \<times> world" where
  "spriteCallback res t s w =
     (let w = w\<lparr>in_flight := remove1 t (in_flight w)\<rparr>
      in case res of
           SpriteEnd (Some img) \<Rightarrow>
             (let s = s\<lparr>thumbnail := Some img\<rparr>;
                  s = save s
              in (s, w\<lparr>emitted := emitted w @ [StreamSprite (sid s) img]\<rparr>))
         | SpriteEnd None \<Rightarrow> (s, w)
         | SpriteFailed err \<Rightarrow> (s, w))"

section \<open>The formulas of the specification, and example data\<close>

definition indicator :: "bool \<Rightarrow> int" where
  "indicator b = (if b then 1 else 0)"

definition clamp :: "int \<Rightarrow> int \<Rightarrow> int \<Rightarrow> int" where
  "clamp x lo hi = max lo (min hi x)"

text \<open>The health score as the specification writes it.\<close>

definition healthScore_spec :: "stream \<Rightarrow> int" where
  "healthScore_spec s =
     clamp (100 - 30 * indicator (isStale (health s))
                - min (sequenceJumps (health s) * 5) 20
                - min (sequenceResets (health s) * 10) 30
                - min (totalErrors (health s) * 2) 20
                - 40 * indicator (status s = Error)
                - 50 * indicator (status s = Offline)) 0 100"

text \<open>
  The probed video and audio information of a stream, if any: what the probe worker
  stored. The worker always stores a colour space and a bit rate with the video, and a
  sample rate and a bit rate with the audio, so an object without fields is no probed
  information.
\<close>

definition probedVideo :: "stream \<Rightarrow> video_stats option" where
  "probedVideo s =
     (case video (stats s) of
        None \<Rightarrow> None
      | Some v \<Rightarrow> if v = noVideo then None else Some v)"

definition probedAudio :: "stream \<Rightarrow> audio_stats option" where
  "probedAudio s =
     (case audio (stats s) of
        None \<Rightarrow> None
      | Some a \<Rightarrow> if a = noAudio then None else Some a)"

text \<open>
  The video and audio scores as the specification writes them: a codec is absent when
  it is undefined or empty, and a comparison with an undefined number is false.
\<close>

definition videoScore_spec :: "stream \<Rightarrow> int" where
  "videoScore_spec s =
     (case probedVideo s of
        None \<Rightarrow> 50
      | Some v \<Rightarrow> clamp (100 - 20 * indicator (\<not> truthy_str (video_codec v))
                             - 10 * indicator (js_lt (video_width v) 720)) 0 100)"

definition audioScore_spec :: "stream \<Rightarrow> int" where
  "audioScore_spec s =
     (case probedAudio s of
        None \<Rightarrow> 50
      | Some a \<Rightarrow> clamp (100 - 20 * indicator (\<not> truthy_str (audio_codec a))
                             - 10 * indicator (js_lt (audio_sampleRate a) 44100)) 0 100)"

text \<open>A stream that was never polled or probed, as the schema's defaults make it.\<close>

definition health0 :: health where
  "health0 = \<lparr> isStale = False, lastManifestUpdate = None, timeSinceLastUpdate = 0,
       staleThreshold = 7000, mediaSequence = - 1, previousMediaSequence = - 1,
       sequenceJumps = 0, sequenceResets = 0, discontinuitySequence = 0,
       discontinuityCount = 0, segmentCount = 0, targetDuration = 0,
       playlistType = ''LIVE'', totalErrors = 0, timeSinceLastError = 0 \<rparr>"

definition stats0 :: stats where
  "stats0 = \<lparr> bandwidth = None, resolution = None, fps = None, video = Some noVideo,
       audio = Some noAudio, container = Some noContainer \<rparr>"

definition stream0 :: stream where
  "stream0 = \<lparr> sid = ''s1'', name = ''one'', url = ''http://a/live/master.m3u8'',
       status = Offline, health = health0, stats = stats0, streamErrors = [],
       thumbnail = None, lastChecked = 0 \<rparr>"

text \<open>A stale stream with positive counters.\<close>

definition troubled :: stream where
  "troubled =
     stream0\<lparr>status := Online,
             health := health0\<lparr>isStale := True, sequenceJumps := 2, sequenceResets := 1,
                               totalErrors := 3\<rparr>\<rparr>"

text \<open>
  A stream whose probed audio has a codec and the sample rate \<open>0\<close> that the probe worker
  stores when the probe reports none, and whose probed video has a codec and width \<open>0\<close>.
\<close>

definition unknownRates :: stream where
  "unknownRates =
     stream0\<lparr>stats := stats0
       \<lparr>video := Some \<lparr> video_codec = Some ''h264'', video_profile = None, video_level = None,
                         video_width = Some 0, video_height = Some 0, video_pixFmt = None,
                         video_colorSpace = Some ''unknown'', video_bitRate = Some 0 \<rparr>,
        audio := Some \<lparr> audio_codec = Some ''aac'', audio_channels = Some 2,
                         audio_sampleRate = Some 0, audio_bitRate = Some 128000 \<rparr>\<rparr>\<rparr>"

definition lowQuality :: stream where
  "lowQuality =
     stream0\<lparr>stats := stats0
       \<lparr>video := Some \<lparr> video_codec = None, video_profile = None, video_level = None,
                         video_width = Some 640, video_height = Some 360, video_pixFmt = None,
                         video_colorSpace = Some ''unknown'', video_bitRate = Some 0 \<rparr>,
        audio := Some \<lparr> audio_codec = Some ''aac'', audio_channels = Some 2,
                         audio_sampleRate = Some 22050, audio_bitRate = Some 64000 \<rparr>\<rparr>\<rparr>"

text \<open>A ledger entry, and a stream whose ledger is full.\<close>

definition entry0 :: stream_error where
  "entry0 = \<lparr> eid = ''eid-0-old'', date = 0, errorType = PLAYLIST_CONTENT, mediaType = ''VIDEO'',
       variant = ''unknown'', details = ''Playlist has no segments'', code = None \<rparr>"

definition fullLedger :: stream where
  "fullLedger = stream0\<lparr>streamErrors := replicate 1000 entry0\<rparr>"

section \<open>Derived notions used in the statements\<close>

text \<open>The stream after the staleness check and the sequence checks of a cycle.\<close>

definition analysed :: "cycle_input \<Rightarrow> stream \<Rightarrow> poll_state \<Rightarrow> manifest \<Rightarrow> stream" where
  "analysed inp s st m =
     (let c = or_else (manifest_mediaSequence m) 0
      in sequenceChecks inp c (fst (stalenessCheck inp c s st)) (snd (stalenessCheck inp c s st)))"

text \<open>
  Example inputs: a media playlist of two segments that reports the sequence \<open>c\<close>, the
  input of a cycle at time \<open>t\<close> that fetches it, an input whose fetch times out, the
  process at start, and the process tracking sequence \<open>l\<close> since time \<open>t\<close> for the
  stream \<open>stream0\<close>.
\<close>

definition mediaManifest :: "int option \<Rightarrow> manifest" where
  "mediaManifest c =
     \<lparr> playlists = [],
       segments = [\<lparr>segment_uri = ''seg1.ts'', discontinuity = False\<rparr>,
                   \<lparr>segment_uri = ''seg2.ts'', discontinuity = False\<rparr>],
       manifest_mediaSequence = c, manifest_targetDuration = Some 6,
       manifest_playlistType = None, manifest_discontinuitySequence = None \<rparr>"

definition timeoutError :: fetch_error where
  "timeoutError = \<lparr> message = ''timeout of 10000ms exceeded'', response_status = None \<rparr>"

definition pollInput :: "int \<Rightarrow> int option \<Rightarrow> cycle_input" where
  "pollInput t c =
     \<lparr> now = t, masterFetch = Inr (mediaManifest c), variantFetch = (\<lambda>u. Inl timeoutError),
       errorId = (\<lambda>n. ''eid-'' @ show_int t), errorDate = (\<lambda>n. t), manifestDate = t,
       checkedDate = t, metricsOk = True \<rparr>"

definition failingInput :: "int \<Rightarrow> cycle_input" where
  "failingInput t = (pollInput t None)\<lparr>masterFetch := Inl timeoutError\<rparr>"

definition world0 :: world where
  "world0 = \<lparr> streamState = Map.empty, metricsHistory = [], emitted = [], in_flight = [] \<rparr>"

definition tracking :: "int \<Rightarrow> int \<Rightarrow> world" where
  "tracking l t =
     world0\<lparr>streamState :=
       [''s1'' \<mapsto> \<lparr>lastPollTime = t, lastMediaSequence = l, consecutiveStales = 0\<rparr>]\<rparr>"

text \<open>The worlds that differ at most in the events emitted so far.\<close>

definition same_engine :: "world \<Rightarrow> world \<Rightarrow> bool" where
  "same_engine w1 w2 =
     (streamState w1 = streamState w2 \<and> metricsHistory w1 = metricsHistory w2
      \<and> in_flight w1 = in_flight w2)"

text \<open>No counter of the first stream is above the same counter of the second.\<close>

definition counters_le :: "stream \<Rightarrow> stream \<Rightarrow> bool" where
  "counters_le a b =
     (sequenceJumps (health a) \<le> sequenceJumps (health b)
      \<and> sequenceResets (health a) \<le> sequenceResets (health b)
      \<and> totalErrors (health a) \<le> totalErrors (health b))"

text \<open>An event without the two levels of a signal.\<close>

definition withoutLevels :: "event \<Rightarrow> event" where
  "withoutLevels e =
     (case e of
        StreamSignal g \<Rightarrow> StreamSignal (g\<lparr>signal_video := 0, signal_audio := 0\<rparr>)
      | StreamUpdate x \<Rightarrow> e
      | StreamSprite i u \<Rightarrow> e)"

text \<open>The two levels of a signal event.\<close>

definition signalLevels :: "event \<Rightarrow> (rat \<times> rat) option" where
  "signalLevels e =
     (case e of
        StreamSignal g \<Rightarrow> Some (signal_video g, signal_audio g)
      | StreamUpdate x \<Rightarrow> None
      | StreamSprite i u \<Rightarrow> None)"

text \<open>
  An example probe of a segment with one video and one audio track, and the host
  functions on the texts that occur in it.
\<close>

definition exampleJs :: js_builtins where
  "exampleJs =
     \<lparr> parseInt = (\<lambda>t. if t = ''2500000'' then Some 2500000
                       else if t = ''128000'' then Some 128000
                       else if t = ''48000'' then Some 48000
                       else if t = ''1880000'' then Some 1880000 else None),
       parseFloat = (\<lambda>t. if t = ''6'' then Some 6 else None),
       toNumber = (\<lambda>t. if t = ''2500000'' then Some 2500000 else None),
       js_eval = (\<lambda>t. if t = ''30/1'' then Inr (Some 30) else Inl ''SyntaxError'') \<rparr>"

definition exampleProbe :: metadata where
  "exampleProbe =
     \<lparr> format = Some \<lparr> format_name = Some ''mpegts'', format_duration = Some ''6'',
                        format_size = Some ''1880000'', format_bit_rate = Some ''2500000'' \<rparr>,
       streams =
         [\<lparr> codec_type = Some ''video'', codec_name = Some ''h264'', profile = Some ''High'',
            level = Some ''31'', width = Some 1280, height = Some 720,
            pix_fmt = Some ''yuv420p'', color_space = None, color_primaries = None,
            bit_rate = Some ''2500000'', r_frame_rate = Some ''30/1'', channels = None,
            sample_rate = None \<rparr>,
          \<lparr> codec_type = Some ''audio'', codec_name = Some ''aac'', profile = Some ''LC'',
            level = None, width = None, height = None, pix_fmt = None, color_space = None,
            color_primaries = None, bit_rate = Some ''128000'', r_frame_rate = Some ''0/0'',
            channels = Some 2, sample_rate = Some ''48000'' \<rparr>] \<rparr>"

text \<open>The cycle of a stream gets as far as the analysis of a media playlist.\<close>

definition reachesAnalysis :: "cycle_input \<Rightarrow> stream \<Rightarrow> bool" where
  "reachesAnalysis inp s =
     (case fetchPhase inp s of
        Inl a \<Rightarrow> False
      | Inr (s1, u, m) \<Rightarrow> segments m \<noteq> [])"

text \<open>Ten streams whose playlists can be fetched, in one pass of the loop.\<close>

definition tenStreams :: "(cycle_input \<times> stream) list" where
  "tenStreams =
     map (\<lambda>i. (pollInput 7000 (Some 5), stream0\<lparr>sid := ''s'' @ show_nat i\<rparr>)) [0..<10]"

text \<open>The cycle analyses a media playlist, and the playlist reports the sequence \<open>c\<close>.\<close>

definition reportsSequence :: "cycle_input \<Rightarrow> stream \<Rightarrow> int \<Rightarrow> bool" where
  "reportsSequence inp s c =
     (case fetchPhase inp s of
        Inl a \<Rightarrow> False
      | Inr (s1, u, m) \<Rightarrow> segments m \<noteq> [] \<and> or_else (manifest_mediaSequence m) 0 = c)"

text \<open>
  Among cycles at the given clock values, the first one after a cycle at \<open>t\<close>, the number
  of those that start more than \<open>thr\<close> after the cycle before them.
\<close>

fun staleHits :: "int \<Rightarrow> int \<Rightarrow> int list \<Rightarrow> nat" where
  "staleHits thr t [] = 0"
| "staleHits thr t (n # ns) = (if n - t > thr then 1 else 0) + staleHits thr n ns"

text \<open>
  Cycles of one stream that all report sequence 5: at 1000, 9000 and 17000, each 8000
  after the one before; and at 1000, 5000, 13000 and 21000.
\<close>

definition staleTwice :: "cycle_input list" where
  "staleTwice = [pollInput 1000 (Some 5), pollInput 9000 (Some 5), pollInput 17000 (Some 5)]"

definition quietRun :: "cycle_input list" where
  "quietRun = [pollInput 1000 (Some 5), pollInput 5000 (Some 5), pollInput 13000 (Some 5),
     pollInput 21000 (Some 5)]"

section \<open>Properties\<close>

subsection \<open>The health score\<close>

lemma if_minus: "(if c then (x::int) - k else x) = x - (if c then k else 0)"
  by simp

lemma times_indicator: "k * indicator b = (if b then k else 0)"
  by (simp add: indicator_def)

lemma guarded_min5: "(if 0 < j then min (j * 5) 20 else 0) = min (max 0 j * 5) (20::int)"
  by (simp add: min_def max_def)

lemma guarded_min10: "(if 0 < j then min (j * 10) 30 else 0) = min (max 0 j * 10) (30::int)"
  by (simp add: min_def max_def)

lemma guarded_min2: "(if 0 < j then min (j * 2) 20 else 0) = min (max 0 j * 2) (20::int)"
  by (simp add: min_def max_def)

lemma clamp_range: "0 \<le> clamp x 0 100 \<and> clamp x 0 100 \<le> 100"
  by (simp add: clamp_def)

lemma max_nonneg: "0 \<le> (j::int) \<Longrightarrow> max 0 j = j"
  by simp

text \<open>The deductions one after the other, as one difference.\<close>

lemma calculateHealthScore_linear:
  "calculateHealthScore s =
     max 0 (min 100 (100 - (if isStale (health s) then 30 else 0)
        - (if 0 < sequenceJumps (health s) then min (sequenceJumps (health s) * 5) 20 else 0)
        - (if 0 < sequenceResets (health s) then min (sequenceResets (health s) * 10) 30 else 0)
        - (if 0 < totalErrors (health s) then min (totalErrors (health s) * 2) 20 else 0)
        - (if status s = Error then 40 else 0)
        - (if status s = Offline then 50 else 0)))"
  by (simp only: calculateHealthScore_def Let_def if_minus)

lemma calculateHealthScore_closed:
  "calculateHealthScore s =
     clamp (100 - 30 * indicator (isStale (health s))
                - min (max 0 (sequenceJumps (health s)) * 5) 20
                - min (max 0 (sequenceResets (health s)) * 10) 30
                - min (max 0 (totalErrors (health s)) * 2) 20
                - 40 * indicator (status s = Error)
                - 50 * indicator (status s = Offline)) 0 100"
  by (simp only: calculateHealthScore_linear clamp_def times_indicator
        guarded_min5 guarded_min10 guarded_min2)

lemma calculateHealthScore_spec:
  assumes "0 \<le> sequenceJumps (health s)" and "0 \<le> sequenceResets (health s)"
    and "0 \<le> totalErrors (health s)"
  shows "calculateHealthScore s = healthScore_spec s"
  using assms by (simp only: calculateHealthScore_closed healthScore_spec_def max_nonneg)

subsection \<open>The video and audio scores\<close>

lemma calculateVideoScore_closed:
  "calculateVideoScore s =
     (case video (stats s) of
        None \<Rightarrow> 50
      | Some v \<Rightarrow>
          clamp (100 - 20 * indicator (\<not> truthy_str (video_codec v))
                     - 10 * indicator (video_width v \<noteq> Some 0 \<and> js_lt (video_width v) 720))
            0 100)"
  by (auto simp add: calculateVideoScore_def clamp_def indicator_def Let_def truthy_def
        js_lt_def split: option.splits)

lemma calculateAudioScore_closed:
  "calculateAudioScore s =
     (case audio (stats s) of
        None \<Rightarrow> 50
      | Some a \<Rightarrow>
          clamp (100 - 20 * indicator (\<not> truthy_str (audio_codec a))
                     - 10 * indicator (audio_sampleRate a \<noteq> Some 0
                                        \<and> js_lt (audio_sampleRate a) 44100))
            0 100)"
  by (auto simp add: calculateAudioScore_def clamp_def indicator_def Let_def truthy_def
        js_lt_def split: option.splits)

lemma calculateVideoScore_range: "0 \<le> calculateVideoScore s \<and> calculateVideoScore s \<le> 100"
  using clamp_range by (simp add: calculateVideoScore_closed split: option.splits)

lemma calculateAudioScore_range: "0 \<le> calculateAudioScore s \<and> calculateAudioScore s \<le> 100"
  using clamp_range by (simp add: calculateAudioScore_closed split: option.splits)

lemma probedVideo_Some: "probedVideo s = Some v \<Longrightarrow> video (stats s) = Some v"
  by (simp add: probedVideo_def split: option.splits if_splits)

lemma probedAudio_Some: "probedAudio s = Some a \<Longrightarrow> audio (stats s) = Some a"
  by (simp add: probedAudio_def split: option.splits if_splits)

text \<open>
  C7, as the specification states it, fails where the probed width or sample rate is 0:
  the code tests \<^verbatim>\<open>video.width && video.width < 720\<close> and
  \<^verbatim>\<open>audio.sampleRate && audio.sampleRate < 44100\<close>, and 0 is falsy. The probe worker
  stores the sample rate 0 when the probe reports none. Such a stream scores 100 on
  both, where the stated formulas give 90.
\<close>

theorem zero_rate_scores_counterexample:
  "calculateAudioScore unknownRates = 100 \<and> audioScore_spec unknownRates = 90
   \<and> calculateVideoScore unknownRates = 100 \<and> videoScore_spec unknownRates = 90"
  by (simp add: calculateAudioScore_closed calculateVideoScore_closed audioScore_spec_def
        videoScore_spec_def probedVideo_def probedAudio_def noVideo_def noAudio_def clamp_def
        indicator_def truthy_str_def js_lt_def unknownRates_def stream0_def stats0_def)

text \<open>
  C7, amended: for a stream with probed video information the video score is 100
  minus 20 if the codec is absent, minus 10 if the width is defined, not 0 and below
  720; for a stream with probed audio information the audio score is 100 minus 20 if
  the codec is absent, minus 10 if the sample rate is defined, not 0 and below 44100;
  both are clamped, and both scores lie between 0 and 100 for every stream. The
  statement says nothing about the score of a stream without probed information.
\<close>

theorem video_audio_score_formula:
  "(probedVideo s = Some v \<longrightarrow>
      calculateVideoScore s =
        clamp (100 - 20 * indicator (\<not> truthy_str (video_codec v))
                   - 10 * indicator (video_width v \<noteq> Some 0 \<and> js_lt (video_width v) 720))
          0 100)
   \<and> (probedAudio s = Some a \<longrightarrow>
      calculateAudioScore s =
        clamp (100 - 20 * indicator (\<not> truthy_str (audio_codec a))
                   - 10 * indicator (audio_sampleRate a \<noteq> Some 0
                                      \<and> js_lt (audio_sampleRate a) 44100))
          0 100)
   \<and> 0 \<le> calculateVideoScore s \<and> calculateVideoScore s \<le> 100
   \<and> 0 \<le> calculateAudioScore s \<and> calculateAudioScore s \<le> 100"
proof (intro conjI impI)
  assume "probedVideo s = Some v"
  then have "video (stats s) = Some v"
    by (rule probedVideo_Some)
  then show "calculateVideoScore s =
        clamp (100 - 20 * indicator (\<not> truthy_str (video_codec v))
                   - 10 * indicator (video_width v \<noteq> Some 0 \<and> js_lt (video_width v) 720))
          0 100"
    by (simp add: calculateVideoScore_closed)
next
  assume "probedAudio s = Some a"
  then have "audio (stats s) = Some a"
    by (rule probedAudio_Some)
  then show "calculateAudioScore s =
        clamp (100 - 20 * indicator (\<not> truthy_str (audio_codec a))
                   - 10 * indicator (audio_sampleRate a \<noteq> Some 0
                                      \<and> js_lt (audio_sampleRate a) 44100))
          0 100"
    by (simp add: calculateAudioScore_closed)
next
  show "0 \<le> calculateVideoScore s" and "calculateVideoScore s \<le> 100"
    using calculateVideoScore_range [of s] by simp_all
  show "0 \<le> calculateAudioScore s" and "calculateAudioScore s \<le> 100"
    using calculateAudioScore_range [of s] by simp_all
qed

theorem video_audio_score_formula_witness:
  "probedVideo lowQuality = Some
      \<lparr> video_codec = None, video_profile = None, video_level = None,
        video_width = Some 640, video_height = Some 360, video_pixFmt = None,
        video_colorSpace = Some ''unknown'', video_bitRate = Some 0 \<rparr>
   \<and> probedAudio lowQuality = Some
      \<lparr> audio_codec = Some ''aac'', audio_channels = Some 2,
        audio_sampleRate = Some 22050, audio_bitRate = Some 64000 \<rparr>
   \<and> calculateVideoScore lowQuality = 70 \<and> calculateAudioScore lowQuality = 90"
proof -
  have v: "probedVideo lowQuality = Some
      \<lparr> video_codec = None, video_profile = None, video_level = None,
        video_width = Some 640, video_height = Some 360, video_pixFmt = None,
        video_colorSpace = Some ''unknown'', video_bitRate = Some 0 \<rparr>"
    by (simp add: probedVideo_def noVideo_def lowQuality_def)
  have a: "probedAudio lowQuality = Some
      \<lparr> audio_codec = Some ''aac'', audio_channels = Some 2,
        audio_sampleRate = Some 22050, audio_bitRate = Some 64000 \<rparr>"
    by (simp add: probedAudio_def noAudio_def lowQuality_def)
  from video_audio_score_formula [where s = lowQuality
      and v = "\<lparr> video_codec = None, video_profile = None, video_level = None,
        video_width = Some 640, video_height = Some 360, video_pixFmt = None,
        video_colorSpace = Some ''unknown'', video_bitRate = Some 0 \<rparr>"
      and a = "\<lparr> audio_codec = Some ''aac'', audio_channels = Some 2,
        audio_sampleRate = Some 22050, audio_bitRate = Some 64000 \<rparr>"] v a
  have "calculateVideoScore lowQuality = 70 \<and> calculateAudioScore lowQuality = 90"
    by (simp add: clamp_def indicator_def truthy_str_def js_lt_def)
  with v a show ?thesis
    by simp
qed

text \<open>
  The return of 50 is for an undefined \<^verbatim>\<open>stats.video\<close> or \<^verbatim>\<open>stats.audio\<close>. On the
  document of a stream that was never probed the two are objects without fields: the
  test does not fire, the codec counts as absent, and the stream scores 80 on both.
\<close>

lemma never_probed_scores:
  "probedVideo stream0 = None \<and> probedAudio stream0 = None
   \<and> calculateVideoScore stream0 = 80 \<and> calculateAudioScore stream0 = 80
   \<and> videoScore_spec stream0 = 50 \<and> audioScore_spec stream0 = 50"
  by (simp add: calculateVideoScore_closed calculateAudioScore_closed videoScore_spec_def
        audioScore_spec_def probedVideo_def probedAudio_def noVideo_def noAudio_def clamp_def
        indicator_def truthy_str_def js_lt_def stream0_def stats0_def)

subsection \<open>The error ledger\<close>

lemma streamErrors_save: "streamErrors (save s) = slice_last 1000 (streamErrors s)"
  by (simp add: save_def pre_save_def slice_last_def)

lemma length_streamErrors_save: "length (streamErrors (save s)) \<le> 1000"
  by (simp add: streamErrors_save slice_last_def)

lemma streamErrors_addError:
  "streamErrors (addError i d s ty det mt cd) = streamErrors s @ [errorEntry i d s ty det mt cd]"
  by (simp add: addError_def Let_def)

lemma slice_last_full:
  "length xs = n \<Longrightarrow> 0 < n \<Longrightarrow> slice_last n (xs @ [e]) = tl xs @ [e]"
  by (cases xs) (simp_all add: slice_last_def)

lemma slice_last_append:
  "slice_last n (slice_last n xs @ ys) = slice_last n (xs @ ys)"
proof (cases "length xs \<le> n")
  case True
  then show ?thesis
    by (simp add: slice_last_def)
next
  case False
  then obtain k where k: "length xs = n + k"
    by (metis le_iff_add nat_le_linear)
  show ?thesis
    by (simp add: slice_last_def k add.commute)
qed

lemma map_slice_last: "map f (slice_last n xs) = slice_last n (map f xs)"
  by (simp add: slice_last_def drop_map)

lemma slice_last_short: "length xs \<le> n \<Longrightarrow> slice_last n xs = xs"
  by (simp add: slice_last_def)

text \<open>
  C4: a save leaves the last 1000 entries of the ledger, in their order, and never
  more than 1000; on a ledger of 1000 entries, appending one error and saving leaves
  1000 entries: the old ones without the oldest, then the new one.
\<close>

theorem error_ledger_cap:
  "streamErrors (save s) = drop (length (streamErrors s) - 1000) (streamErrors s)
   \<and> length (streamErrors (save s)) \<le> 1000
   \<and> (length (streamErrors s) = 1000 \<longrightarrow>
        streamErrors (save (addError i d s ty det mt cd))
          = tl (streamErrors s) @ [errorEntry i d s ty det mt cd]
        \<and> length (streamErrors (save (addError i d s ty det mt cd))) = 1000)"
proof (intro conjI impI)
  show "streamErrors (save s) = drop (length (streamErrors s) - 1000) (streamErrors s)"
    by (simp add: streamErrors_save slice_last_def)
  show "length (streamErrors (save s)) \<le> 1000"
    by (rule length_streamErrors_save)
next
  assume full: "length (streamErrors s) = 1000"
  then show eq: "streamErrors (save (addError i d s ty det mt cd))
      = tl (streamErrors s) @ [errorEntry i d s ty det mt cd]"
    by (simp add: streamErrors_save streamErrors_addError slice_last_full)
  from full show "length (streamErrors (save (addError i d s ty det mt cd))) = 1000"
    by (simp add: eq)
qed

theorem error_ledger_cap_witness:
  "length (streamErrors fullLedger) = 1000
   \<and> streamErrors (save (addError ''eid-7-new'' 7 fullLedger STALE_MANIFEST
        ''Playlist stale for 8000ms'' ''VIDEO'' None))
      = replicate 999 entry0
        @ [\<lparr> eid = ''eid-7-new'', date = 7, errorType = STALE_MANIFEST, mediaType = ''VIDEO'',
             variant = ''unknown'', details = ''Playlist stale for 8000ms'', code = None \<rparr>]"
proof -
  have len: "length (streamErrors fullLedger) = 1000"
    by (simp add: fullLedger_def)
  have tl: "tl (streamErrors fullLedger) = replicate 999 entry0"
    by (simp add: fullLedger_def)
  have e: "errorEntry ''eid-7-new'' 7 fullLedger STALE_MANIFEST
        ''Playlist stale for 8000ms'' ''VIDEO'' None
      = \<lparr> eid = ''eid-7-new'', date = 7, errorType = STALE_MANIFEST, mediaType = ''VIDEO'',
             variant = ''unknown'', details = ''Playlist stale for 8000ms'', code = None \<rparr>"
    by (simp add: errorEntry_def fullLedger_def stream0_def stats0_def)
  from error_ledger_cap [of fullLedger "''eid-7-new''" 7 STALE_MANIFEST
      "''Playlist stale for 8000ms''" "''VIDEO''" None] len
  have "streamErrors (save (addError ''eid-7-new'' 7 fullLedger STALE_MANIFEST
        ''Playlist stale for 8000ms'' ''VIDEO'' None))
      = tl (streamErrors fullLedger) @ [errorEntry ''eid-7-new'' 7 fullLedger STALE_MANIFEST
        ''Playlist stale for 8000ms'' ''VIDEO'' None]"
    by blast
  with len tl e show ?thesis
    by simp
qed

subsection \<open>Fields that the steps of a cycle leave alone\<close>

lemma save_fields [simp]:
  "sid (save s) = sid s" "name (save s) = name s" "url (save s) = url s"
  "status (save s) = status s" "health (save s) = health s" "stats (save s) = stats s"
  "thumbnail (save s) = thumbnail s" "lastChecked (save s) = lastChecked s"
  by (simp_all add: save_def pre_save_def)

lemma recordError_fields [simp]:
  "sid (recordError inp s ty det mt cd) = sid s"
  "name (recordError inp s ty det mt cd) = name s"
  "url (recordError inp s ty det mt cd) = url s"
  "status (recordError inp s ty det mt cd) = status s"
  "stats (recordError inp s ty det mt cd) = stats s"
  "thumbnail (recordError inp s ty det mt cd) = thumbnail s"
  "lastChecked (recordError inp s ty det mt cd) = lastChecked s"
  "health (recordError inp s ty det mt cd)
     = (health s)\<lparr>totalErrors := totalErrors (health s) + 1, timeSinceLastError := 0\<rparr>"
  "streamErrors (recordError inp s ty det mt cd)
     = streamErrors s @ [errorEntry (errorId inp (length (streamErrors s)))
                            (errorDate inp (length (streamErrors s))) s ty det mt cd]"
  by (simp_all add: recordError_def addError_def Let_def)

lemma errorEntry_stats:
  "stats a = stats b \<Longrightarrow> errorEntry i d a ty det mt cd = errorEntry i d b ty det mt cd"
  by (simp add: errorEntry_def)

lemma discontinuityCheck_fields [simp]:
  "sid (discontinuityCheck m s) = sid s"
  "name (discontinuityCheck m s) = name s"
  "url (discontinuityCheck m s) = url s"
  "status (discontinuityCheck m s) = status s"
  "stats (discontinuityCheck m s) = stats s"
  "thumbnail (discontinuityCheck m s) = thumbnail s"
  "lastChecked (discontinuityCheck m s) = lastChecked s"
  "streamErrors (discontinuityCheck m s) = streamErrors s"
  by (simp_all add: discontinuityCheck_def Let_def split: option.splits)

lemma discontinuityCheck_health [simp]:
  "isStale (health (discontinuityCheck m s)) = isStale (health s)"
  "staleThreshold (health (discontinuityCheck m s)) = staleThreshold (health s)"
  "sequenceJumps (health (discontinuityCheck m s)) = sequenceJumps (health s)"
  "sequenceResets (health (discontinuityCheck m s)) = sequenceResets (health s)"
  "totalErrors (health (discontinuityCheck m s)) = totalErrors (health s)"
  by (simp_all add: discontinuityCheck_def Let_def split: option.splits)

lemma updateHealth_fields [simp]:
  "sid (updateHealth m c s st) = sid s"
  "name (updateHealth m c s st) = name s"
  "url (updateHealth m c s st) = url s"
  "status (updateHealth m c s st) = status s"
  "stats (updateHealth m c s st) = stats s"
  "thumbnail (updateHealth m c s st) = thumbnail s"
  "lastChecked (updateHealth m c s st) = lastChecked s"
  "streamErrors (updateHealth m c s st) = streamErrors s"
  by (simp_all add: updateHealth_def)

lemma updateHealth_health [simp]:
  "isStale (health (updateHealth m c s st)) = isStale (health s)"
  "staleThreshold (health (updateHealth m c s st)) = staleThreshold (health s)"
  "sequenceJumps (health (updateHealth m c s st)) = sequenceJumps (health s)"
  "sequenceResets (health (updateHealth m c s st)) = sequenceResets (health s)"
  "totalErrors (health (updateHealth m c s st)) = totalErrors (health s)"
  "previousMediaSequence (health (updateHealth m c s st)) = lastMediaSequence st"
  "mediaSequence (health (updateHealth m c s st)) = c"
  by (simp_all add: updateHealth_def)

lemma fetchPhase_Inr:
  assumes "fetchPhase inp s = Inr (s1, u, m)"
  shows "sid s1 = sid s" and "name s1 = name s" and "url s1 = url s"
    and "status s1 = status s" and "health s1 = health s"
    and "streamErrors s1 = streamErrors s" and "thumbnail s1 = thumbnail s"
    and "lastChecked s1 = lastChecked s"
  using assms
  by (auto simp add: fetchPhase_def Let_def split: sum.splits list.splits option.splits if_splits prod.splits)

lemma fetchPhase_Inl:
  assumes "fetchPhase inp s = Inl (s1, det, mt, cd)"
  shows "sid s1 = sid s" and "name s1 = name s" and "url s1 = url s"
    and "status s1 = status s" and "health s1 = health s"
    and "streamErrors s1 = streamErrors s" and "thumbnail s1 = thumbnail s"
    and "lastChecked s1 = lastChecked s"
  using assms
  by (auto simp add: fetchPhase_def Let_def split: sum.splits list.splits option.splits if_splits prod.splits)

lemma fetchPhase_master_failed:
  "masterFetch inp = Inl err \<Longrightarrow>
   fetchPhase inp s = Inl (s, ''Failed to fetch manifest: '' @ message err, ''MASTER'', response_status err)"
  by (simp add: fetchPhase_def)

subsection \<open>The steps of a cycle, case by case\<close>

lemma stalenessCheck_fields [simp]:
  "sid (fst (stalenessCheck inp c s st)) = sid s"
  "name (fst (stalenessCheck inp c s st)) = name s"
  "url (fst (stalenessCheck inp c s st)) = url s"
  "stats (fst (stalenessCheck inp c s st)) = stats s"
  "thumbnail (fst (stalenessCheck inp c s st)) = thumbnail s"
  "lastChecked (fst (stalenessCheck inp c s st)) = lastChecked s"
  "staleThreshold (health (fst (stalenessCheck inp c s st))) = staleThreshold (health s)"
  "sequenceJumps (health (fst (stalenessCheck inp c s st))) = sequenceJumps (health s)"
  "sequenceResets (health (fst (stalenessCheck inp c s st))) = sequenceResets (health s)"
  "lastMediaSequence (snd (stalenessCheck inp c s st)) = lastMediaSequence st"
  "lastPollTime (snd (stalenessCheck inp c s st)) = lastPollTime st"
  by (simp_all add: stalenessCheck_def Let_def)

lemma stalenessCheck_changed:
  assumes "c \<noteq> lastMediaSequence st"
  shows "stalenessCheck inp c s st =
    (s\<lparr>health := (health s)\<lparr>isStale := False, lastManifestUpdate := Some (manifestDate inp),
                               timeSinceLastUpdate := 0\<rparr>,
       status := Online\<rparr>,
     st\<lparr>consecutiveStales := 0\<rparr>)"
  using assms by (simp add: stalenessCheck_def Let_def)

lemma stalenessCheck_over:
  assumes "c = lastMediaSequence st" and "now inp - lastPollTime st > staleThreshold (health s)"
  shows "stalenessCheck inp c s st =
    (recordError inp
       (s\<lparr>health := (health s)\<lparr>timeSinceLastUpdate := now inp - lastPollTime st, isStale := True\<rparr>,
          status := Stale\<rparr>)
       STALE_MANIFEST (''Playlist stale for '' @ show_int (now inp - lastPollTime st) @ ''ms'')
       ''VIDEO'' None,
     st\<lparr>consecutiveStales := consecutiveStales st + 1\<rparr>)"
  using assms by (simp add: stalenessCheck_def Let_def)

lemma stalenessCheck_under:
  assumes "c = lastMediaSequence st" and "\<not> now inp - lastPollTime st > staleThreshold (health s)"
  shows "stalenessCheck inp c s st =
    (s\<lparr>health := (health s)\<lparr>timeSinceLastUpdate := now inp - lastPollTime st\<rparr>\<rparr>,
     st\<lparr>consecutiveStales := consecutiveStales st + 1\<rparr>)"
  using assms by (simp add: stalenessCheck_def Let_def)

lemma sequenceChecks_fields [simp]:
  "sid (sequenceChecks inp c s st) = sid s"
  "name (sequenceChecks inp c s st) = name s"
  "url (sequenceChecks inp c s st) = url s"
  "status (sequenceChecks inp c s st) = status s"
  "stats (sequenceChecks inp c s st) = stats s"
  "thumbnail (sequenceChecks inp c s st) = thumbnail s"
  "lastChecked (sequenceChecks inp c s st) = lastChecked s"
  "isStale (health (sequenceChecks inp c s st)) = isStale (health s)"
  "staleThreshold (health (sequenceChecks inp c s st)) = staleThreshold (health s)"
  by (simp_all add: sequenceChecks_def Let_def)

lemma sequenceChecks_initial:
  "lastMediaSequence st = - 1 \<Longrightarrow> sequenceChecks inp c s st = s"
  by (simp add: sequenceChecks_def)

lemma sequenceChecks_jump:
  assumes "lastMediaSequence st \<noteq> - 1" and "c > lastMediaSequence st + 1"
  shows "sequenceChecks inp c s st =
    recordError inp (s\<lparr>health := (health s)\<lparr>sequenceJumps := sequenceJumps (health s) + 1\<rparr>\<rparr>)
      MEDIA_SEQUENCE
      (''Sequence jumped from '' @ show_int (lastMediaSequence st) @ '' to '' @ show_int c
         @ '' (gap: '' @ show_int (c - (lastMediaSequence st + 1)) @ '')'')
      ''VIDEO'' None"
  using assms by (simp add: sequenceChecks_def Let_def)

lemma sequenceChecks_reset:
  assumes "lastMediaSequence st \<noteq> - 1" and "c < lastMediaSequence st"
  shows "sequenceChecks inp c s st =
    recordError inp (s\<lparr>health := (health s)\<lparr>sequenceResets := sequenceResets (health s) + 1\<rparr>\<rparr>)
      MEDIA_SEQUENCE
      (''Sequence reset from '' @ show_int (lastMediaSequence st) @ '' to '' @ show_int c)
      ''VIDEO'' None"
  using assms by (simp add: sequenceChecks_def Let_def)

lemma sequenceChecks_steady:
  assumes "lastMediaSequence st \<le> c" and "c \<le> lastMediaSequence st + 1"
  shows "sequenceChecks inp c s st = s"
  using assms by (simp add: sequenceChecks_def Let_def)

lemma analysePlaylist_stream:
  "fst (analysePlaylist inp s w st u m) =
     save ((updateHealth m (or_else (manifest_mediaSequence m) 0)
              (discontinuityCheck m (analysed inp s st m))
              (snd (stalenessCheck inp (or_else (manifest_mediaSequence m) 0) s st)))
           \<lparr>lastChecked := checkedDate inp\<rparr>)"
  by (simp add: analysePlaylist_def analysed_def Let_def split_beta)

lemma analysePlaylist_world:
  "streamState (snd (analysePlaylist inp s w st u m)) =
     (streamState w)(sid s \<mapsto>
        (snd (stalenessCheck inp (or_else (manifest_mediaSequence m) 0) s st))
          \<lparr>lastMediaSequence := or_else (manifest_mediaSequence m) 0, lastPollTime := now inp\<rparr>)"
  "in_flight (snd (analysePlaylist inp s w st u m)) =
     in_flight w @ [ProbeTask (sid s) (latestSegmentUrl u m), SpriteTask (sid s) (latestSegmentUrl u m)]"
  "emitted (snd (analysePlaylist inp s w st u m)) =
     emitted w @ [StreamUpdate (fst (analysePlaylist inp s w st u m))]"
  by (simp_all add: analysePlaylist_def Let_def split_beta processSegment_def)

lemma checkStream_analysed:
  assumes "fetchPhase inp s = Inr (s1, u, m)" and "segments m \<noteq> []"
  shows "checkStream inp s w = analysePlaylist inp s1 w (getState w s) u m"
  using assms by (simp add: checkStream_def)

lemma checkStream_master_failed:
  assumes "masterFetch inp = Inl err"
  shows "checkStream inp s w =
    abortCycle inp s w MANIFEST_RETRIEVAL (''Failed to fetch manifest: '' @ message err) ''MASTER''
      (response_status err)"
  using assms by (simp add: checkStream_def fetchPhase_master_failed)

subsection \<open>One cycle: the sequence checks\<close>

lemma set_slice_last: "set (slice_last n xs) \<subseteq> set xs"
  by (simp add: slice_last_def set_drop_subset)

lemma cycle_sequences:
  assumes "fetchPhase inp s = Inr (s1, u, m)" and "segments m \<noteq> []"
  shows "previousMediaSequence (health (fst (checkStream inp s w))) = lastMediaSequence (getState w s)"
    and "mediaSequence (health (fst (checkStream inp s w))) = or_else (manifest_mediaSequence m) 0"
  using assms by (simp_all add: checkStream_analysed analysePlaylist_stream)

lemma cycle_jump:
  assumes f: "fetchPhase inp s = Inr (s1, u, m)" and seg: "segments m \<noteq> []"
    and c: "c = or_else (manifest_mediaSequence m) 0"
    and tracked: "lastMediaSequence (getState w s) \<noteq> - 1"
    and jump: "c > lastMediaSequence (getState w s) + 1"
  shows "sequenceJumps (health (fst (checkStream inp s w))) = sequenceJumps (health s) + 1"
    and "sequenceResets (health (fst (checkStream inp s w))) = sequenceResets (health s)"
    and "totalErrors (health (fst (checkStream inp s w))) = totalErrors (health s) + 1"
    and "streamErrors (fst (checkStream inp s w)) =
       slice_last 1000 (streamErrors s @
         [errorEntry (errorId inp (length (streamErrors s))) (errorDate inp (length (streamErrors s)))
            s1 MEDIA_SEQUENCE
            (''Sequence jumped from '' @ show_int (lastMediaSequence (getState w s)) @ '' to ''
               @ show_int c @ '' (gap: '' @ show_int (c - (lastMediaSequence (getState w s) + 1))
               @ '')'')
            ''VIDEO'' None])"
proof -
  from jump have ne: "c \<noteq> lastMediaSequence (getState w s)"
    by simp
  have a: "analysed inp s1 (getState w s) m =
      recordError inp
        ((fst (stalenessCheck inp c s1 (getState w s)))
           \<lparr>health := (health (fst (stalenessCheck inp c s1 (getState w s))))
              \<lparr>sequenceJumps := sequenceJumps (health s1) + 1\<rparr>\<rparr>)
        MEDIA_SEQUENCE
        (''Sequence jumped from '' @ show_int (lastMediaSequence (getState w s)) @ '' to ''
               @ show_int c @ '' (gap: '' @ show_int (c - (lastMediaSequence (getState w s) + 1))
               @ '')'')
        ''VIDEO'' None"
    using tracked jump by (simp add: analysed_def c [symmetric] sequenceChecks_jump)
  have st: "fst (stalenessCheck inp c s1 (getState w s)) =
      s1\<lparr>health := (health s1)\<lparr>isStale := False, lastManifestUpdate := Some (manifestDate inp),
                               timeSinceLastUpdate := 0\<rparr>,
       status := Online\<rparr>"
    using ne by (simp add: stalenessCheck_changed)
  note fs = fetchPhase_Inr [OF f]
  show "sequenceJumps (health (fst (checkStream inp s w))) = sequenceJumps (health s) + 1"
    by (simp add: checkStream_analysed [OF f seg] analysePlaylist_stream a fs)
  show "sequenceResets (health (fst (checkStream inp s w))) = sequenceResets (health s)"
    by (simp add: checkStream_analysed [OF f seg] analysePlaylist_stream a st fs)
  show "totalErrors (health (fst (checkStream inp s w))) = totalErrors (health s) + 1"
    by (simp add: checkStream_analysed [OF f seg] analysePlaylist_stream a st fs)
  show "streamErrors (fst (checkStream inp s w)) =
       slice_last 1000 (streamErrors s @
         [errorEntry (errorId inp (length (streamErrors s))) (errorDate inp (length (streamErrors s)))
            s1 MEDIA_SEQUENCE
            (''Sequence jumped from '' @ show_int (lastMediaSequence (getState w s)) @ '' to ''
               @ show_int c @ '' (gap: '' @ show_int (c - (lastMediaSequence (getState w s) + 1))
               @ '')'')
            ''VIDEO'' None])"
    by (simp add: checkStream_analysed [OF f seg] analysePlaylist_stream a st fs
          streamErrors_save errorEntry_def)
qed

lemma cycle_reset:
  assumes f: "fetchPhase inp s = Inr (s1, u, m)" and seg: "segments m \<noteq> []"
    and c: "c = or_else (manifest_mediaSequence m) 0"
    and tracked: "lastMediaSequence (getState w s) \<noteq> - 1"
    and reset: "c < lastMediaSequence (getState w s)"
  shows "sequenceResets (health (fst (checkStream inp s w))) = sequenceResets (health s) + 1"
    and "sequenceJumps (health (fst (checkStream inp s w))) = sequenceJumps (health s)"
    and "totalErrors (health (fst (checkStream inp s w))) = totalErrors (health s) + 1"
    and "streamErrors (fst (checkStream inp s w)) =
       slice_last 1000 (streamErrors s @
         [errorEntry (errorId inp (length (streamErrors s))) (errorDate inp (length (streamErrors s)))
            s1 MEDIA_SEQUENCE
            (''Sequence reset from '' @ show_int (lastMediaSequence (getState w s)) @ '' to ''
               @ show_int c)
            ''VIDEO'' None])"
    and "status (fst (checkStream inp s w)) = Online"
proof -
  from reset have ne: "c \<noteq> lastMediaSequence (getState w s)"
    by simp
  have a: "analysed inp s1 (getState w s) m =
      recordError inp
        ((fst (stalenessCheck inp c s1 (getState w s)))
           \<lparr>health := (health (fst (stalenessCheck inp c s1 (getState w s))))
              \<lparr>sequenceResets := sequenceResets (health s1) + 1\<rparr>\<rparr>)
        MEDIA_SEQUENCE
        (''Sequence reset from '' @ show_int (lastMediaSequence (getState w s)) @ '' to ''
               @ show_int c)
        ''VIDEO'' None"
    using tracked reset by (simp add: analysed_def c [symmetric] sequenceChecks_reset)
  have st: "fst (stalenessCheck inp c s1 (getState w s)) =
      s1\<lparr>health := (health s1)\<lparr>isStale := False, lastManifestUpdate := Some (manifestDate inp),
                               timeSinceLastUpdate := 0\<rparr>,
       status := Online\<rparr>"
    using ne by (simp add: stalenessCheck_changed)
  note fs = fetchPhase_Inr [OF f]
  show "sequenceResets (health (fst (checkStream inp s w))) = sequenceResets (health s) + 1"
    by (simp add: checkStream_analysed [OF f seg] analysePlaylist_stream a fs)
  show "sequenceJumps (health (fst (checkStream inp s w))) = sequenceJumps (health s)"
    by (simp add: checkStream_analysed [OF f seg] analysePlaylist_stream a st fs)
  show "totalErrors (health (fst (checkStream inp s w))) = totalErrors (health s) + 1"
    by (simp add: checkStream_analysed [OF f seg] analysePlaylist_stream a st fs)
  show "streamErrors (fst (checkStream inp s w)) =
       slice_last 1000 (streamErrors s @
         [errorEntry (errorId inp (length (streamErrors s))) (errorDate inp (length (streamErrors s)))
            s1 MEDIA_SEQUENCE
            (''Sequence reset from '' @ show_int (lastMediaSequence (getState w s)) @ '' to ''
               @ show_int c)
            ''VIDEO'' None])"
    by (simp add: checkStream_analysed [OF f seg] analysePlaylist_stream a st fs
          streamErrors_save errorEntry_def)
  show "status (fst (checkStream inp s w)) = Online"
    by (simp add: checkStream_analysed [OF f seg] analysePlaylist_stream a st)
qed

lemma cycle_initial:
  assumes f: "fetchPhase inp s = Inr (s1, u, m)" and seg: "segments m \<noteq> []"
    and tracked: "lastMediaSequence (getState w s) = - 1"
  shows "sequenceJumps (health (fst (checkStream inp s w))) = sequenceJumps (health s)"
    and "sequenceResets (health (fst (checkStream inp s w))) = sequenceResets (health s)"
    and "\<forall>e \<in> set (streamErrors (fst (checkStream inp s w))).
           errorType e = MEDIA_SEQUENCE \<longrightarrow> e \<in> set (streamErrors s)"
proof -
  note fs = fetchPhase_Inr [OF f]
  have a: "analysed inp s1 (getState w s) m =
      fst (stalenessCheck inp (or_else (manifest_mediaSequence m) 0) s1 (getState w s))"
    using tracked by (simp add: analysed_def sequenceChecks_initial)
  show "sequenceJumps (health (fst (checkStream inp s w))) = sequenceJumps (health s)"
    by (simp add: checkStream_analysed [OF f seg] analysePlaylist_stream a fs)
  show "sequenceResets (health (fst (checkStream inp s w))) = sequenceResets (health s)"
    by (simp add: checkStream_analysed [OF f seg] analysePlaylist_stream a fs)
  have "set (streamErrors (fst (checkStream inp s w)))
      \<subseteq> set (streamErrors (fst (stalenessCheck inp (or_else (manifest_mediaSequence m) 0) s1 (getState w s))))"
    using set_slice_last
    by (simp add: checkStream_analysed [OF f seg] analysePlaylist_stream a streamErrors_save)
  moreover have "\<forall>e \<in> set (streamErrors (fst (stalenessCheck inp (or_else (manifest_mediaSequence m) 0) s1 (getState w s)))).
      errorType e = MEDIA_SEQUENCE \<longrightarrow> e \<in> set (streamErrors s)"
    by (simp add: stalenessCheck_def Let_def fs errorEntry_def)
  ultimately show "\<forall>e \<in> set (streamErrors (fst (checkStream inp s w))).
           errorType e = MEDIA_SEQUENCE \<longrightarrow> e \<in> set (streamErrors s)"
    by blast
qed

lemma cycle_steady:
  assumes f: "fetchPhase inp s = Inr (s1, u, m)" and seg: "segments m \<noteq> []"
    and c: "c = or_else (manifest_mediaSequence m) 0"
    and lo: "lastMediaSequence (getState w s) \<le> c" and hi: "c \<le> lastMediaSequence (getState w s) + 1"
  shows "sequenceJumps (health (fst (checkStream inp s w))) = sequenceJumps (health s)"
    and "sequenceResets (health (fst (checkStream inp s w))) = sequenceResets (health s)"
proof -
  note fs = fetchPhase_Inr [OF f]
  have a: "analysed inp s1 (getState w s) m =
      fst (stalenessCheck inp c s1 (getState w s))"
    using lo hi by (simp add: analysed_def c [symmetric] sequenceChecks_steady)
  show "sequenceJumps (health (fst (checkStream inp s w))) = sequenceJumps (health s)"
    by (simp add: checkStream_analysed [OF f seg] analysePlaylist_stream a fs)
  show "sequenceResets (health (fst (checkStream inp s w))) = sequenceResets (health s)"
    by (simp add: checkStream_analysed [OF f seg] analysePlaylist_stream a fs)
qed

lemma fetchPhase_pollInput:
  "fetchPhase (pollInput t c) s = Inr (s, url s, mediaManifest c)"
  by (simp add: fetchPhase_def pollInput_def mediaManifest_def)

lemma segments_mediaManifest: "segments (mediaManifest c) \<noteq> []"
  by (simp add: mediaManifest_def)

lemma getState_tracking:
  "getState (tracking l t) stream0 = \<lparr>lastPollTime = t, lastMediaSequence = l, consecutiveStales = 0\<rparr>"
  by (simp add: getState_def tracking_def world0_def stream0_def)

lemma getState_world0: "getState world0 stream0 = initialState"
  by (simp add: getState_def world0_def)

text \<open>
  C2: on a cycle that reaches the sequence checks, the stored previous and current
  sequences are the tracked one and the reported one. When the tracked sequence is
  \<open>-1\<close> the two counters stay and no \<^verbatim>\<open>MEDIA_SEQUENCE\<close> entry is added to the ledger.
  Otherwise a reported sequence above the tracked one plus 1 adds 1 to \<open>sequenceJumps\<close>
  and appends one \<^verbatim>\<open>MEDIA_SEQUENCE\<close> entry that cites the previous and current
  sequence and the gap; a reported sequence below the tracked one adds 1 to
  \<open>sequenceResets\<close> and appends one entry that cites the reset; the two cases exclude each
  other, and in between neither counter moves.
\<close>

theorem sequence_checks:
  assumes "fetchPhase inp s = Inr (s1, u, m)" and "segments m \<noteq> []"
    and "c = or_else (manifest_mediaSequence m) 0"
    and "l = lastMediaSequence (getState w s)"
    and "s' = fst (checkStream inp s w)"
    and "n = length (streamErrors s)"
  shows "previousMediaSequence (health s') = l \<and> mediaSequence (health s') = c
    \<and> (l = - 1 \<longrightarrow>
          sequenceJumps (health s') = sequenceJumps (health s)
          \<and> sequenceResets (health s') = sequenceResets (health s)
          \<and> (\<forall>e \<in> set (streamErrors s'). errorType e = MEDIA_SEQUENCE \<longrightarrow> e \<in> set (streamErrors s)))
    \<and> (l \<noteq> - 1 \<and> c > l + 1 \<longrightarrow>
          sequenceJumps (health s') = sequenceJumps (health s) + 1
          \<and> sequenceResets (health s') = sequenceResets (health s)
          \<and> totalErrors (health s') = totalErrors (health s) + 1
          \<and> streamErrors s' =
              slice_last 1000 (streamErrors s @
                [errorEntry (errorId inp n) (errorDate inp n) s1 MEDIA_SEQUENCE
                   (''Sequence jumped from '' @ show_int l @ '' to '' @ show_int c
                      @ '' (gap: '' @ show_int (c - (l + 1)) @ '')'')
                   ''VIDEO'' None]))
    \<and> (l \<noteq> - 1 \<and> c < l \<longrightarrow>
          sequenceResets (health s') = sequenceResets (health s) + 1
          \<and> sequenceJumps (health s') = sequenceJumps (health s)
          \<and> totalErrors (health s') = totalErrors (health s) + 1
          \<and> streamErrors s' =
              slice_last 1000 (streamErrors s @
                [errorEntry (errorId inp n) (errorDate inp n) s1 MEDIA_SEQUENCE
                   (''Sequence reset from '' @ show_int l @ '' to '' @ show_int c)
                   ''VIDEO'' None]))
    \<and> (l \<noteq> - 1 \<and> l \<le> c \<and> c \<le> l + 1 \<longrightarrow>
          sequenceJumps (health s') = sequenceJumps (health s)
          \<and> sequenceResets (health s') = sequenceResets (health s))
    \<and> \<not> (c > l + 1 \<and> c < l)"
proof (intro conjI impI)
  show "previousMediaSequence (health s') = l" and "mediaSequence (health s') = c"
    using assms cycle_sequences by simp_all
next
  assume "l = - 1"
  with assms cycle_initial [of inp s s1 u m w]
  show "sequenceJumps (health s') = sequenceJumps (health s)"
    and "sequenceResets (health s') = sequenceResets (health s)"
    and "\<forall>e \<in> set (streamErrors s'). errorType e = MEDIA_SEQUENCE \<longrightarrow> e \<in> set (streamErrors s)"
    by simp_all
next
  assume "l \<noteq> - 1 \<and> c > l + 1"
  with assms cycle_jump [of inp s s1 u m c w]
  show "sequenceJumps (health s') = sequenceJumps (health s) + 1"
    and "sequenceResets (health s') = sequenceResets (health s)"
    and "totalErrors (health s') = totalErrors (health s) + 1"
    and "streamErrors s' =
              slice_last 1000 (streamErrors s @
                [errorEntry (errorId inp n) (errorDate inp n) s1 MEDIA_SEQUENCE
                   (''Sequence jumped from '' @ show_int l @ '' to '' @ show_int c
                      @ '' (gap: '' @ show_int (c - (l + 1)) @ '')'')
                   ''VIDEO'' None])"
    by simp_all
next
  assume "l \<noteq> - 1 \<and> c < l"
  with assms cycle_reset [of inp s s1 u m c w]
  show "sequenceResets (health s') = sequenceResets (health s) + 1"
    and "sequenceJumps (health s') = sequenceJumps (health s)"
    and "totalErrors (health s') = totalErrors (health s) + 1"
    and "streamErrors s' =
              slice_last 1000 (streamErrors s @
                [errorEntry (errorId inp n) (errorDate inp n) s1 MEDIA_SEQUENCE
                   (''Sequence reset from '' @ show_int l @ '' to '' @ show_int c)
                   ''VIDEO'' None])"
    by simp_all
next
  assume "l \<noteq> - 1 \<and> l \<le> c \<and> c \<le> l + 1"
  with assms cycle_steady [of inp s s1 u m c w]
  show "sequenceJumps (health s') = sequenceJumps (health s)"
    and "sequenceResets (health s') = sequenceResets (health s)"
    by simp_all
next
  show "\<not> (c > l + 1 \<and> c < l)"
    by simp
qed

theorem sequence_checks_witness:
  "fetchPhase (pollInput 7000 (Some 103)) stream0 = Inr (stream0, url stream0, mediaManifest (Some 103))
   \<and> segments (mediaManifest (Some 103)) \<noteq> []
   \<and> lastMediaSequence (getState (tracking 100 0) stream0) = 100
   \<and> sequenceJumps (health (fst (checkStream (pollInput 7000 (Some 103)) stream0 (tracking 100 0)))) = 1
   \<and> sequenceResets (health (fst (checkStream (pollInput 7000 (Some 103)) stream0 (tracking 100 0)))) = 0
   \<and> map details (streamErrors (fst (checkStream (pollInput 7000 (Some 103)) stream0 (tracking 100 0))))
       = [''Sequence jumped from 100 to 103 (gap: 2)'']
   \<and> map errorType (streamErrors (fst (checkStream (pollInput 7000 (Some 103)) stream0 (tracking 100 0))))
       = [MEDIA_SEQUENCE]
   \<and> sequenceResets (health (fst (checkStream (pollInput 7000 (Some 97)) stream0 (tracking 100 0)))) = 1
   \<and> sequenceJumps (health (fst (checkStream (pollInput 7000 (Some 97)) stream0 (tracking 100 0)))) = 0
   \<and> map details (streamErrors (fst (checkStream (pollInput 7000 (Some 97)) stream0 (tracking 100 0))))
       = [''Sequence reset from 100 to 97'']
   \<and> lastMediaSequence (getState world0 stream0) = - 1
   \<and> previousMediaSequence (health (fst (checkStream (pollInput 7000 (Some 100)) stream0 world0))) = - 1
   \<and> mediaSequence (health (fst (checkStream (pollInput 7000 (Some 100)) stream0 world0))) = 100
   \<and> sequenceJumps (health (fst (checkStream (pollInput 7000 (Some 100)) stream0 world0))) = 0
   \<and> sequenceResets (health (fst (checkStream (pollInput 7000 (Some 100)) stream0 world0))) = 0"
proof -
  have z: "sequenceJumps (health stream0) = 0" "sequenceResets (health stream0) = 0"
    "streamErrors stream0 = []"
    by (simp_all add: stream0_def health0_def)
  have l: "lastMediaSequence (getState (tracking 100 0) stream0) = 100"
    by (simp add: getState_tracking)
  have l0: "lastMediaSequence (getState world0 stream0) = - 1"
    by (simp add: getState_world0 initialState_def)
  have c: "or_else (manifest_mediaSequence (mediaManifest (Some 103))) 0 = 103"
    "or_else (manifest_mediaSequence (mediaManifest (Some 97))) 0 = 97"
    "or_else (manifest_mediaSequence (mediaManifest (Some 100))) 0 = 100"
    by (simp_all add: mediaManifest_def or_else_def)
  have t: "show_int 100 = ''100''" "show_int 103 = ''103''" "show_int 97 = ''97''"
    "show_int 2 = ''2''"
    by (simp_all add: show_int_def digit_char_def)
  note b = sequence_checks [OF fetchPhase_pollInput segments_mediaManifest c(1) [symmetric]
      l [symmetric] refl refl, of 7000]
  note r = sequence_checks [OF fetchPhase_pollInput segments_mediaManifest c(2) [symmetric]
      l [symmetric] refl refl, of 7000]
  note a = sequence_checks [OF fetchPhase_pollInput segments_mediaManifest c(3) [symmetric]
      l0 [symmetric] refl refl, of 7000]
  have jump: "sequenceJumps (health (fst (checkStream (pollInput 7000 (Some 103)) stream0 (tracking 100 0)))) = 1
    \<and> sequenceResets (health (fst (checkStream (pollInput 7000 (Some 103)) stream0 (tracking 100 0)))) = 0
    \<and> map details (streamErrors (fst (checkStream (pollInput 7000 (Some 103)) stream0 (tracking 100 0))))
       = [''Sequence jumped from 100 to 103 (gap: 2)'']
    \<and> map errorType (streamErrors (fst (checkStream (pollInput 7000 (Some 103)) stream0 (tracking 100 0))))
       = [MEDIA_SEQUENCE]"
    using b by (simp add: z t slice_last_def errorEntry_def)
  have reset: "sequenceResets (health (fst (checkStream (pollInput 7000 (Some 97)) stream0 (tracking 100 0)))) = 1
    \<and> sequenceJumps (health (fst (checkStream (pollInput 7000 (Some 97)) stream0 (tracking 100 0)))) = 0
    \<and> map details (streamErrors (fst (checkStream (pollInput 7000 (Some 97)) stream0 (tracking 100 0))))
       = [''Sequence reset from 100 to 97'']"
    using r by (simp add: z t slice_last_def errorEntry_def)
  have init: "previousMediaSequence (health (fst (checkStream (pollInput 7000 (Some 100)) stream0 world0))) = - 1
    \<and> mediaSequence (health (fst (checkStream (pollInput 7000 (Some 100)) stream0 world0))) = 100
    \<and> sequenceJumps (health (fst (checkStream (pollInput 7000 (Some 100)) stream0 world0))) = 0
    \<and> sequenceResets (health (fst (checkStream (pollInput 7000 (Some 100)) stream0 world0))) = 0"
    using a by (simp add: z)
  from jump reset init l l0 show ?thesis
    by (simp add: fetchPhase_pollInput segments_mediaManifest)
qed

text \<open>
  C10: when the media playlist has no media sequence, or the sequence 0, the cycle
  takes the current sequence to be 0; if the tracked sequence is positive, the cycle
  stores sequence 0, adds 1 to \<open>sequenceResets\<close> and appends one \<^verbatim>\<open>MEDIA_SEQUENCE\<close>
  entry for a reset from the tracked sequence to 0.
\<close>

theorem missing_sequence_is_reset:
  assumes "fetchPhase inp s = Inr (s1, u, m)" and "segments m \<noteq> []"
    and "manifest_mediaSequence m = None \<or> manifest_mediaSequence m = Some 0"
    and "l = lastMediaSequence (getState w s)" and "0 < l"
    and "s' = fst (checkStream inp s w)"
    and "n = length (streamErrors s)"
  shows "mediaSequence (health s') = 0
    \<and> sequenceResets (health s') = sequenceResets (health s) + 1
    \<and> sequenceJumps (health s') = sequenceJumps (health s)
    \<and> totalErrors (health s') = totalErrors (health s) + 1
    \<and> streamErrors s' =
        slice_last 1000 (streamErrors s @
          [errorEntry (errorId inp n) (errorDate inp n) s1 MEDIA_SEQUENCE
             (''Sequence reset from '' @ show_int l @ '' to '' @ show_int 0) ''VIDEO'' None])
    \<and> status s' = Online"
proof -
  from assms(3) have c: "0 = or_else (manifest_mediaSequence m) 0"
    by (auto simp add: or_else_def)
  from assms have tracked: "lastMediaSequence (getState w s) \<noteq> - 1"
    and reset: "0 < lastMediaSequence (getState w s)"
    by simp_all
  from cycle_sequences(2) [OF assms(1,2), of w] c assms(6)
  have "mediaSequence (health s') = 0"
    by simp
  with cycle_reset [OF assms(1,2) c tracked reset] assms(4,6,7) show ?thesis
    by simp
qed

theorem missing_sequence_is_reset_witness:
  "fetchPhase (pollInput 7000 None) stream0 = Inr (stream0, url stream0, mediaManifest None)
   \<and> segments (mediaManifest None) \<noteq> []
   \<and> manifest_mediaSequence (mediaManifest None) = None
   \<and> lastMediaSequence (getState (tracking 100 0) stream0) = 100
   \<and> mediaSequence (health (fst (checkStream (pollInput 7000 None) stream0 (tracking 100 0)))) = 0
   \<and> sequenceResets (health (fst (checkStream (pollInput 7000 None) stream0 (tracking 100 0)))) = 1
   \<and> map details (streamErrors (fst (checkStream (pollInput 7000 None) stream0 (tracking 100 0))))
       = [''Sequence reset from 100 to 0'']"
proof -
  have z: "sequenceResets (health stream0) = 0" "streamErrors stream0 = []"
    by (simp_all add: stream0_def health0_def)
  have l: "lastMediaSequence (getState (tracking 100 0) stream0) = 100"
    by (simp add: getState_tracking)
  have m: "manifest_mediaSequence (mediaManifest None) = None"
    by (simp add: mediaManifest_def)
  have t: "show_int 100 = ''100''" "show_int 0 = ''0''"
    by (simp_all add: show_int_def digit_char_def)
  from missing_sequence_is_reset [OF fetchPhase_pollInput segments_mediaManifest disjI1 [OF m]
      l [symmetric] _ refl refl, of 7000]
  have "mediaSequence (health (fst (checkStream (pollInput 7000 None) stream0 (tracking 100 0)))) = 0
   \<and> sequenceResets (health (fst (checkStream (pollInput 7000 None) stream0 (tracking 100 0)))) = 1
   \<and> map details (streamErrors (fst (checkStream (pollInput 7000 None) stream0 (tracking 100 0))))
       = [''Sequence reset from 100 to 0'']"
    by (simp add: z t slice_last_def errorEntry_def)
  with l m show ?thesis
    by (simp add: fetchPhase_pollInput segments_mediaManifest)
qed

subsection \<open>A failed fetch of the master playlist\<close>

lemma abortCycle_stream:
  "fst (abortCycle inp s w ty det mt cd) = save ((recordError inp s ty det mt cd)\<lparr>status := Error\<rparr>)"
  by (simp add: abortCycle_def Let_def)

lemma abortCycle_world:
  "snd (abortCycle inp s w ty det mt cd) =
     w\<lparr>emitted := emitted w @ [StreamUpdate (fst (abortCycle inp s w ty det mt cd))]\<rparr>"
  by (simp add: abortCycle_def Let_def)

lemma analysePlaylist_metrics:
  "metricsHistory (snd (analysePlaylist inp s w st u m)) =
     metricsHistory w @
       (if metricsOk inp
        then [metricsOf (fst (analysePlaylist inp s w st u m)) (or_else (manifest_mediaSequence m) 0)
                (int (length (segments m)))]
        else [])"
  by (simp add: analysePlaylist_def Let_def split_beta processSegment_def)

lemma checkStream_same_engine:
  assumes "same_engine w1 w2"
  shows "fst (checkStream inp s w1) = fst (checkStream inp s w2)"
    and "same_engine (snd (checkStream inp s w1)) (snd (checkStream inp s w2))"
proof -
  from assms have g: "getState w1 s = getState w2 s"
    by (simp add: same_engine_def getState_def)
  show "fst (checkStream inp s w1) = fst (checkStream inp s w2)"
    by (simp add: checkStream_def g abortCycle_stream analysePlaylist_stream
          split: sum.splits prod.splits)
  show "same_engine (snd (checkStream inp s w1)) (snd (checkStream inp s w2))"
    using assms
    by (simp add: checkStream_def g abortCycle_world analysePlaylist_world
          analysePlaylist_metrics analysePlaylist_stream same_engine_def
          split: sum.splits prod.splits)
qed

lemma monitorLoop_same_engine:
  "same_engine w1 w2 \<Longrightarrow>
   fst (monitorLoop rest w1) = fst (monitorLoop rest w2)
   \<and> same_engine (snd (monitorLoop rest w1)) (snd (monitorLoop rest w2))"
proof (induction rest arbitrary: w1 w2)
  case Nil
  then show ?case by simp
next
  case (Cons p rest)
  obtain inp s where p: "p = (inp, s)"
    by (cases p)
  from checkStream_same_engine [OF Cons.prems, of inp s]
  have a: "fst (checkStream inp s w1) = fst (checkStream inp s w2)"
    and b: "same_engine (snd (checkStream inp s w1)) (snd (checkStream inp s w2))"
    by simp_all
  from Cons.IH [OF b] a show ?case
    by (simp add: p split_beta)
qed

lemma last_slice_last: "0 < n \<Longrightarrow> last (slice_last n (xs @ [e])) = e"
  by (simp add: slice_last_def)

text \<open>
  C6: when the fetch of the stream's URL fails, the cycle sets the status to
  \<^verbatim>\<open>error\<close>, appends one \<^verbatim>\<open>MANIFEST_RETRIEVAL\<close> entry with media type \<^verbatim>\<open>MASTER\<close> and
  the HTTP status of the failure as its code, emits one update event and returns:
  it writes no metrics, starts no probe and leaves the tracked state as it was; the
  loop goes on, and the streams after this one get the results they would get without
  it.
\<close>

theorem master_fetch_failure:
  assumes "masterFetch inp = Inl err"
    and "s' = fst (checkStream inp s w)" and "w' = snd (checkStream inp s w)"
    and "n = length (streamErrors s)"
  shows "status s' = Error
    \<and> streamErrors s' =
        slice_last 1000 (streamErrors s @
          [errorEntry (errorId inp n) (errorDate inp n) s MANIFEST_RETRIEVAL
             (''Failed to fetch manifest: '' @ message err) ''MASTER'' (response_status err)])
    \<and> errorType (last (streamErrors s')) = MANIFEST_RETRIEVAL
    \<and> mediaType (last (streamErrors s')) = ''MASTER''
    \<and> code (last (streamErrors s')) = response_status err
    \<and> totalErrors (health s') = totalErrors (health s) + 1
    \<and> emitted w' = emitted w @ [StreamUpdate s']
    \<and> metricsHistory w' = metricsHistory w
    \<and> streamState w' = streamState w
    \<and> in_flight w' = in_flight w
    \<and> fst (monitorLoop ((inp, s) # rest) w) = s' # fst (monitorLoop rest w)
    \<and> streamState (snd (monitorLoop ((inp, s) # rest) w)) = streamState (snd (monitorLoop rest w))
    \<and> metricsHistory (snd (monitorLoop ((inp, s) # rest) w))
        = metricsHistory (snd (monitorLoop rest w))
    \<and> in_flight (snd (monitorLoop ((inp, s) # rest) w)) = in_flight (snd (monitorLoop rest w))"
proof -
  note cs = checkStream_master_failed [OF assms(1), of s w]
  have st: "status s' = Error"
    by (simp add: assms(2) cs abortCycle_stream)
  have led: "streamErrors s' =
        slice_last 1000 (streamErrors s @
          [errorEntry (errorId inp n) (errorDate inp n) s MANIFEST_RETRIEVAL
             (''Failed to fetch manifest: '' @ message err) ''MASTER'' (response_status err)])"
    by (simp add: assms(2,4) cs abortCycle_stream streamErrors_save errorEntry_def)
  have lst: "errorType (last (streamErrors s')) = MANIFEST_RETRIEVAL"
    "mediaType (last (streamErrors s')) = ''MASTER''"
    "code (last (streamErrors s')) = response_status err"
    by (simp_all add: led last_slice_last errorEntry_def)
  have tot: "totalErrors (health s') = totalErrors (health s) + 1"
    by (simp add: assms(2) cs abortCycle_stream)
  have wd: "w' = w\<lparr>emitted := emitted w @ [StreamUpdate s']\<rparr>"
    by (simp add: assms(2,3) cs abortCycle_world)
  then have se: "same_engine w' w"
    by (simp add: same_engine_def)
  have ml: "monitorLoop ((inp, s) # rest) w =
      (s' # fst (monitorLoop rest w'), snd (monitorLoop rest w'))"
    by (simp add: assms(2,3) split_beta)
  from monitorLoop_same_engine [OF se, of rest]
  have rest: "fst (monitorLoop rest w') = fst (monitorLoop rest w)"
    "same_engine (snd (monitorLoop rest w')) (snd (monitorLoop rest w))"
    by simp_all
  from wd have wf: "emitted w' = emitted w @ [StreamUpdate s']"
    "metricsHistory w' = metricsHistory w" "streamState w' = streamState w"
    "in_flight w' = in_flight w"
    by simp_all
  from st led lst tot wf ml rest show ?thesis
    by (simp add: same_engine_def)
qed

theorem master_fetch_failure_witness:
  "masterFetch (failingInput 7000) = Inl timeoutError
   \<and> status (fst (checkStream (failingInput 7000) stream0 world0)) = Error
   \<and> map errorType (streamErrors (fst (checkStream (failingInput 7000) stream0 world0)))
       = [MANIFEST_RETRIEVAL]
   \<and> map mediaType (streamErrors (fst (checkStream (failingInput 7000) stream0 world0)))
       = [''MASTER'']
   \<and> map details (streamErrors (fst (checkStream (failingInput 7000) stream0 world0)))
       = [''Failed to fetch manifest: timeout of 10000ms exceeded'']
   \<and> metricsHistory (snd (checkStream (failingInput 7000) stream0 world0)) = []
   \<and> length (emitted (snd (checkStream (failingInput 7000) stream0 world0))) = 1"
proof -
  have m: "masterFetch (failingInput 7000) = Inl timeoutError"
    by (simp add: failingInput_def)
  have z: "streamErrors stream0 = []" "metricsHistory world0 = []" "emitted world0 = []"
    by (simp_all add: stream0_def world0_def)
  from master_fetch_failure [OF m refl refl refl, of stream0 world0 "[]"] m
  show ?thesis
    by (simp add: z slice_last_def errorEntry_def timeoutError_def)
qed

subsection \<open>The counters only grow\<close>

lemma counters_le_refl: "counters_le s s"
  by (simp add: counters_le_def)

lemma counters_le_trans: "counters_le a b \<Longrightarrow> counters_le b c \<Longrightarrow> counters_le a c"
  by (simp add: counters_le_def)

lemma counters_le_health: "health b = health a \<Longrightarrow> counters_le a b"
  by (simp add: counters_le_def)

lemma counters_le_recordError: "counters_le s (recordError inp s ty det mt cd)"
  by (simp add: counters_le_def)

lemma counters_le_save: "counters_le s (save s)"
  by (simp add: counters_le_def)

lemma counters_le_stalenessCheck: "counters_le s (fst (stalenessCheck inp c s st))"
  by (simp add: counters_le_def stalenessCheck_def Let_def)

lemma counters_le_sequenceChecks: "counters_le s (sequenceChecks inp c s st)"
  by (simp add: counters_le_def sequenceChecks_def Let_def)

lemma counters_le_abortCycle: "counters_le s (fst (abortCycle inp s w ty det mt cd))"
  by (simp add: counters_le_def abortCycle_stream)

lemma counters_le_analysePlaylist: "counters_le s (fst (analysePlaylist inp s w st u m))"
proof -
  have "counters_le s (analysed inp s st m)"
    unfolding analysed_def Let_def
    using counters_le_stalenessCheck counters_le_sequenceChecks counters_le_trans by blast
  then show ?thesis
    by (simp add: counters_le_def analysePlaylist_stream)
qed

lemma counters_le_checkStream: "counters_le s (fst (checkStream inp s w))"
proof (cases "fetchPhase inp s")
  case (Inl a)
  obtain s1 det mt cd where a: "a = (s1, det, mt, cd)"
    by (cases a)
  from fetchPhase_Inl(5) [OF Inl [unfolded a]] have le: "counters_le s s1"
    by (simp add: counters_le_def)
  have "fst (checkStream inp s w) = fst (abortCycle inp s1 w MANIFEST_RETRIEVAL det mt cd)"
    by (simp add: checkStream_def Inl a)
  with counters_le_trans [OF le counters_le_abortCycle] show ?thesis
    by simp
next
  case (Inr b)
  obtain s1 u m where b: "b = (s1, u, m)"
    by (cases b)
  from fetchPhase_Inr(5) [OF Inr [unfolded b]] have le: "counters_le s s1"
    by (simp add: counters_le_def)
  show ?thesis
  proof (cases "segments m = []")
    case True
    then have "fst (checkStream inp s w) =
        fst (abortCycle inp s1 w PLAYLIST_CONTENT ''Playlist has no segments'' ''VIDEO'' None)"
      by (simp add: checkStream_def Inr b)
    with counters_le_trans [OF le counters_le_abortCycle] show ?thesis
      by simp
  next
    case False
    then have "fst (checkStream inp s w) = fst (analysePlaylist inp s1 w (getState w s) u m)"
      by (simp add: checkStream_def Inr b)
    with counters_le_trans [OF le counters_le_analysePlaylist] show ?thesis
      by simp
  qed
qed

lemma counters_le_pollCycles: "counters_le s (fst (pollCycles inps s w))"
proof (induction inps arbitrary: s w)
  case Nil
  then show ?case by (simp add: counters_le_refl)
next
  case (Cons inp inps)
  have "counters_le (fst (checkStream inp s w))
      (fst (pollCycles inps (fst (checkStream inp s w)) (snd (checkStream inp s w))))"
    by (rule Cons.IH)
  from counters_le_trans [OF counters_le_checkStream this] show ?case
    by (simp add: split_beta)
qed

lemma counters_le_fatalHandler: "counters_le s (fst (fatalHandler inp msg s w))"
  by (simp add: counters_le_def fatalHandler_def Let_def)

lemma containerStats_health [simp]: "health (containerStats js md s) = health s"
  by (simp add: containerStats_def split: option.splits)

lemma videoStats_health:
  "videoStats js md s = Inl a \<Longrightarrow> health a = health s"
  "videoStats js md s = Inr (b, r) \<Longrightarrow> health b = health s"
  by (auto simp add: videoStats_def Let_def split: option.splits sum.splits if_splits)

lemma audioStats_health [simp]: "health (fst (audioStats js md s)) = health s"
  by (simp add: audioStats_def Let_def split: option.splits)

lemma probeSuccess_health: "health (fst (probeSuccess js md rnd ts s w)) = health s"
proof (cases "videoStats js md (containerStats js md s)")
  case (Inl a)
  with videoStats_health(1) [OF Inl] show ?thesis
    by (simp add: probeSuccess_def Let_def)
next
  case (Inr p)
  obtain b r where p: "p = (b, r)"
    by (cases p)
  with videoStats_health(2) [OF Inr [unfolded p]] Inr show ?thesis
    by (simp add: probeSuccess_def Let_def split_beta)
qed

lemma probeCallback_health: "health (fst (probeCallback js res rnd ts t s w)) = health s"
  by (simp add: probeCallback_def Let_def probeSuccess_health split: sum.splits)

lemma spriteCallback_health: "health (fst (spriteCallback res t s w)) = health s"
  by (simp add: spriteCallback_def Let_def split: sprite_result.splits option.splits)

text \<open>
  C5: no operation of the engine lowers \<open>sequenceJumps\<close>, \<open>sequenceResets\<close> or
  \<open>totalErrors\<close> of a stream: not a poll cycle on any of its paths, not any sequence of
  poll cycles, not the handler of the outer \<^verbatim>\<open>catch\<close>, not a save, and not the callbacks
  of the probe and of the frame extraction.
\<close>

theorem counters_never_decrease:
  "counters_le s (fst (checkStream inp s w))
   \<and> counters_le s (fst (pollCycles inps s w))
   \<and> counters_le s (fst (fatalHandler inp msg s w))
   \<and> counters_le s (save s)
   \<and> counters_le s (fst (probeCallback js res rnd ts t s w))
   \<and> counters_le s (fst (spriteCallback sres t s w))"
proof (intro conjI)
  show "counters_le s (fst (checkStream inp s w))"
    by (rule counters_le_checkStream)
  show "counters_le s (fst (pollCycles inps s w))"
    by (rule counters_le_pollCycles)
  show "counters_le s (fst (fatalHandler inp msg s w))"
    by (rule counters_le_fatalHandler)
  show "counters_le s (save s)"
    by (rule counters_le_save)
  show "counters_le s (fst (probeCallback js res rnd ts t s w))"
    by (rule counters_le_health [OF probeCallback_health])
  show "counters_le s (fst (spriteCallback sres t s w))"
    by (rule counters_le_health [OF spriteCallback_health])
qed

theorem counters_never_decrease_witness:
  "counters_le stream0 (fst (pollCycles [pollInput 7000 (Some 103), failingInput 14000] stream0
      (tracking 100 0)))
   \<and> sequenceJumps (health stream0) = 0 \<and> totalErrors (health stream0) = 0"
  using counters_never_decrease [where s = stream0 and w = "tracking 100 0"
      and inps = "[pollInput 7000 (Some 103), failingInput 14000]"]
  by (simp add: stream0_def health0_def)

subsection \<open>The random draw of the probe handler\<close>

lemma probeSuccess_stream_indep:
  "fst (probeSuccess js md r1 ts s w) = fst (probeSuccess js md r2 ts s w)"
  by (simp add: probeSuccess_def Let_def split_beta split: sum.splits)

lemma probeSuccess_world_indep:
  "map withoutLevels (emitted (snd (probeSuccess js md r1 ts s w)))
     = map withoutLevels (emitted (snd (probeSuccess js md r2 ts s w)))"
  "streamState (snd (probeSuccess js md r1 ts s w)) = streamState (snd (probeSuccess js md r2 ts s w))"
  "metricsHistory (snd (probeSuccess js md r1 ts s w))
     = metricsHistory (snd (probeSuccess js md r2 ts s w))"
  "in_flight (snd (probeSuccess js md r1 ts s w)) = in_flight (snd (probeSuccess js md r2 ts s w))"
  by (simp_all add: probeSuccess_def Let_def split_beta withoutLevels_def split: sum.splits)

text \<open>
  C8: two runs of the handler of a successful probe on the same metadata, stream and
  clock that differ only in the random draw leave the same stream record, so the same
  stored stats (container, video, audio, resolution, frame rate and bit rates), and
  emit the same events up to the video and audio level of the signal event.
\<close>

theorem jitter_only_in_signal:
  "fst (probeSuccess js md r1 ts s w) = fst (probeSuccess js md r2 ts s w)
   \<and> stats (fst (probeSuccess js md r1 ts s w)) = stats (fst (probeSuccess js md r2 ts s w))
   \<and> map withoutLevels (emitted (snd (probeSuccess js md r1 ts s w)))
       = map withoutLevels (emitted (snd (probeSuccess js md r2 ts s w)))
   \<and> streamState (snd (probeSuccess js md r1 ts s w))
       = streamState (snd (probeSuccess js md r2 ts s w))
   \<and> metricsHistory (snd (probeSuccess js md r1 ts s w))
       = metricsHistory (snd (probeSuccess js md r2 ts s w))
   \<and> in_flight (snd (probeSuccess js md r1 ts s w))
       = in_flight (snd (probeSuccess js md r2 ts s w))
   \<and> fst (probeCallback js res r1 ts t s w) = fst (probeCallback js res r2 ts t s w)"
proof (intro conjI)
  show a: "fst (probeSuccess js md r1 ts s w) = fst (probeSuccess js md r2 ts s w)"
    by (rule probeSuccess_stream_indep)
  then show "stats (fst (probeSuccess js md r1 ts s w)) = stats (fst (probeSuccess js md r2 ts s w))"
    by simp
  show "fst (probeCallback js res r1 ts t s w) = fst (probeCallback js res r2 ts t s w)"
    using probeSuccess_stream_indep by (simp add: probeCallback_def Let_def split: sum.splits)
qed (rule probeSuccess_world_indep)+

lemma probeSuccess_signal:
  assumes "videoStats js md (containerStats js md s) = Inr (s', vb)"
  shows "map signalLevels (emitted (snd (probeSuccess js md rnd ts s w))) =
     map signalLevels (emitted w) @
       [Some (max 0 (min 100 (signalLevel vb 5000000 + (rnd - 1 / 2) * 10)),
              max 0 (min 100 (signalLevel (snd (audioStats js md s')) 320000 + (rnd - 1 / 2) * 10))),
        None]"
  using assms by (simp add: probeSuccess_def Let_def split_beta signalLevels_def)

lemma example_videoBitrate:
  "map_sum (\<lambda>a. ()) snd (videoStats exampleJs exampleProbe (containerStats exampleJs exampleProbe stream0))
     = Inr 2500000"
  by (simp add: videoStats_def exampleJs_def exampleProbe_def Let_def on_raw_def or_else_def
        js_or_def truthy_def)

lemma example_audioBitrate: "snd (audioStats exampleJs exampleProbe s) = 128000"
  by (simp add: audioStats_def exampleJs_def exampleProbe_def Let_def on_raw_def or_else_def)

theorem jitter_only_in_signal_witness:
  "fst (probeSuccess exampleJs exampleProbe 0 5 stream0 world0)
     = fst (probeSuccess exampleJs exampleProbe (9 / 10) 5 stream0 world0)
   \<and> map signalLevels (emitted (snd (probeSuccess exampleJs exampleProbe 0 5 stream0 world0)))
       = [Some (45, 35), None]
   \<and> map signalLevels (emitted (snd (probeSuccess exampleJs exampleProbe (9 / 10) 5 stream0 world0)))
       = [Some (54, 44), None]"
proof -
  from example_videoBitrate obtain s' where
    v: "videoStats exampleJs exampleProbe (containerStats exampleJs exampleProbe stream0)
          = Inr (s', 2500000)"
    by (cases "videoStats exampleJs exampleProbe (containerStats exampleJs exampleProbe stream0)")
      auto
  have e: "emitted world0 = []"
    by (simp add: world0_def)
  have l: "signalLevel 2500000 5000000 = 50" "signalLevel 128000 320000 = 40"
    by (simp_all add: signalLevel_def)
  from jitter_only_in_signal [of exampleJs exampleProbe 0 5 stream0 world0 "9 / 10"]
  have "fst (probeSuccess exampleJs exampleProbe 0 5 stream0 world0)
     = fst (probeSuccess exampleJs exampleProbe (9 / 10) 5 stream0 world0)"
    by blast
  then show ?thesis
    by (simp add: probeSuccess_signal [OF v] example_audioBitrate e l)
qed

subsection \<open>External invocations in flight\<close>

lemma checkStream_in_flight:
  assumes "reachesAnalysis inp s"
  shows "length (in_flight (snd (checkStream inp s w))) = length (in_flight w) + 2"
proof -
  from assms obtain s1 u m where f: "fetchPhase inp s = Inr (s1, u, m)" and seg: "segments m \<noteq> []"
    by (auto simp add: reachesAnalysis_def split: sum.splits prod.splits)
  show ?thesis
    by (simp add: checkStream_analysed [OF f seg] analysePlaylist_world)
qed

lemma monitorLoop_in_flight:
  "list_all (\<lambda>p. reachesAnalysis (fst p) (snd p)) ps \<Longrightarrow>
   length (in_flight (snd (monitorLoop ps w))) = length (in_flight w) + 2 * length ps"
proof (induction ps arbitrary: w)
  case Nil
  then show ?case by simp
next
  case (Cons p ps)
  obtain inp s where p: "p = (inp, s)"
    by (cases p)
  from Cons.prems p have r: "reachesAnalysis inp s"
    and rest: "list_all (\<lambda>p. reachesAnalysis (fst p) (snd p)) ps"
    by simp_all
  from Cons.IH [OF rest, of "snd (checkStream inp s w)"] checkStream_in_flight [OF r, of w]
  show ?case
    by (simp add: p split_beta)
qed

lemma reachesAnalysis_pollInput: "reachesAnalysis (pollInput t c) s"
  by (simp add: reachesAnalysis_def fetchPhase_pollInput segments_mediaManifest)

text \<open>
  C9 fails on the code: \<^verbatim>\<open>processSegment\<close> starts the probe and the frame extraction at
  once on every call; no pool, semaphore or queue holds an invocation back. One pass of
  the loop over ten streams whose playlists can be fetched, with no callback in between,
  leaves 20 invocations in flight.
\<close>

theorem probes_not_bounded:
  "length tenStreams = 10
   \<and> list_all (\<lambda>p. reachesAnalysis (fst p) (snd p)) tenStreams
   \<and> in_flight world0 = []
   \<and> length (in_flight (snd (monitorLoop tenStreams world0))) = 20"
proof -
  have a: "list_all (\<lambda>p. reachesAnalysis (fst p) (snd p)) tenStreams"
    by (simp add: tenStreams_def list_all_iff reachesAnalysis_pollInput)
  have n: "length tenStreams = 10"
    by (simp add: tenStreams_def)
  have e: "in_flight world0 = []"
    by (simp add: world0_def)
  from monitorLoop_in_flight [OF a, of world0] a n e show ?thesis
    by simp
qed

subsection \<open>Runs of cycles that report the same sequence\<close>

lemma reportsSequence_url:
  "url a = url b \<Longrightarrow> reportsSequence inp a c = reportsSequence inp b c"
  by (simp add: reportsSequence_def fetchPhase_def Let_def
        split: sum.splits list.splits option.splits prod.splits)

lemma reportsSequence_pollInput: "reportsSequence (pollInput t (Some c)) s (or_else (Some c) 0)"
  by (simp add: reportsSequence_def fetchPhase_pollInput mediaManifest_def)

lemma analysed_fields [simp]:
  "sid (analysed inp s st m) = sid s"
  "url (analysed inp s st m) = url s"
  "stats (analysed inp s st m) = stats s"
  "staleThreshold (health (analysed inp s st m)) = staleThreshold (health s)"
  by (simp_all add: analysed_def Let_def)

lemma checkStream_keeps:
  "sid (fst (checkStream inp s w)) = sid s"
  "url (fst (checkStream inp s w)) = url s"
  "staleThreshold (health (fst (checkStream inp s w))) = staleThreshold (health s)"
proof -
  show "sid (fst (checkStream inp s w)) = sid s"
    by (auto simp add: checkStream_def abortCycle_stream analysePlaylist_stream
          fetchPhase_Inl fetchPhase_Inr split: sum.splits prod.splits)
  show "url (fst (checkStream inp s w)) = url s"
    by (auto simp add: checkStream_def abortCycle_stream analysePlaylist_stream
          fetchPhase_Inl fetchPhase_Inr split: sum.splits prod.splits)
  show "staleThreshold (health (fst (checkStream inp s w))) = staleThreshold (health s)"
    by (auto simp add: checkStream_def abortCycle_stream analysePlaylist_stream
          fetchPhase_Inl fetchPhase_Inr split: sum.splits prod.splits)
qed

lemma getState_after:
  assumes "fetchPhase inp s = Inr (s1, u, m)" and "segments m \<noteq> []"
  shows "getState (snd (checkStream inp s w)) (fst (checkStream inp s w)) =
     (snd (stalenessCheck inp (or_else (manifest_mediaSequence m) 0) s1 (getState w s)))
       \<lparr>lastMediaSequence := or_else (manifest_mediaSequence m) 0, lastPollTime := now inp\<rparr>"
  using assms fetchPhase_Inr(1) [OF assms(1)]
  by (simp add: checkStream_analysed analysePlaylist_world analysePlaylist_stream getState_def)

lemma analysed_stale:
  assumes "or_else (manifest_mediaSequence m) 0 = lastMediaSequence st"
  shows "analysed inp s st m = fst (stalenessCheck inp (lastMediaSequence st) s st)"
  using assms by (simp add: analysed_def Let_def sequenceChecks_def)

lemma cycle_stale:
  assumes r: "reportsSequence inp s c" and l: "lastMediaSequence (getState w s) = c"
    and e: "elapsed = now inp - lastPollTime (getState w s)"
    and s': "s' = fst (checkStream inp s w)" and w': "w' = snd (checkStream inp s w)"
  shows "getState w' s' =
       \<lparr>lastPollTime = now inp, lastMediaSequence = c,
        consecutiveStales = consecutiveStales (getState w s) + 1\<rparr>"
    and "status s' = (if elapsed > staleThreshold (health s) then Stale else status s)"
    and "isStale (health s') = (elapsed > staleThreshold (health s) \<or> isStale (health s))"
    and "totalErrors (health s') =
       totalErrors (health s) + (if elapsed > staleThreshold (health s) then 1 else 0)"
    and "sequenceJumps (health s') = sequenceJumps (health s)"
    and "sequenceResets (health s') = sequenceResets (health s)"
    and "\<exists>s1 u m. fetchPhase inp s = Inr (s1, u, m) \<and> streamErrors s' =
       slice_last 1000 (streamErrors s @
         (if elapsed > staleThreshold (health s)
          then [errorEntry (errorId inp (length (streamErrors s)))
                  (errorDate inp (length (streamErrors s))) s1 STALE_MANIFEST
                  (''Playlist stale for '' @ show_int elapsed @ ''ms'') ''VIDEO'' None]
          else []))"
proof -
  from r obtain s1 u m where f: "fetchPhase inp s = Inr (s1, u, m)" and seg: "segments m \<noteq> []"
    and c: "or_else (manifest_mediaSequence m) 0 = c"
    by (auto simp add: reportsSequence_def split: sum.splits prod.splits)
  note fs = fetchPhase_Inr [OF f]
  have cl: "or_else (manifest_mediaSequence m) 0 = lastMediaSequence (getState w s)"
    by (simp add: c l)
  note a = analysed_stale [OF cl, of inp s1]
  show "getState w' s' =
       \<lparr>lastPollTime = now inp, lastMediaSequence = c,
        consecutiveStales = consecutiveStales (getState w s) + 1\<rparr>"
    by (simp add: s' w' getState_after [OF f seg] c l [symmetric] stalenessCheck_def Let_def)
  show "status s' = (if elapsed > staleThreshold (health s) then Stale else status s)"
    by (simp add: s' checkStream_analysed [OF f seg] analysePlaylist_stream a e fs
          stalenessCheck_def Let_def)
  show "isStale (health s') = (elapsed > staleThreshold (health s) \<or> isStale (health s))"
    by (simp add: s' checkStream_analysed [OF f seg] analysePlaylist_stream a e fs
          stalenessCheck_def Let_def)
  show "totalErrors (health s') =
       totalErrors (health s) + (if elapsed > staleThreshold (health s) then 1 else 0)"
    by (simp add: s' checkStream_analysed [OF f seg] analysePlaylist_stream a e fs
          stalenessCheck_def Let_def)
  show "sequenceJumps (health s') = sequenceJumps (health s)"
    by (simp add: s' checkStream_analysed [OF f seg] analysePlaylist_stream a fs)
  show "sequenceResets (health s') = sequenceResets (health s)"
    by (simp add: s' checkStream_analysed [OF f seg] analysePlaylist_stream a fs)
  have "streamErrors s' =
       slice_last 1000 (streamErrors s @
         (if elapsed > staleThreshold (health s)
          then [errorEntry (errorId inp (length (streamErrors s)))
                  (errorDate inp (length (streamErrors s))) s1 STALE_MANIFEST
                  (''Playlist stale for '' @ show_int elapsed @ ''ms'') ''VIDEO'' None]
          else []))"
    by (simp add: s' checkStream_analysed [OF f seg] analysePlaylist_stream a e fs
          stalenessCheck_def Let_def streamErrors_save errorEntry_def)
  with f show "\<exists>s1 u m. fetchPhase inp s = Inr (s1, u, m) \<and> streamErrors s' =
       slice_last 1000 (streamErrors s @
         (if elapsed > staleThreshold (health s)
          then [errorEntry (errorId inp (length (streamErrors s)))
                  (errorDate inp (length (streamErrors s))) s1 STALE_MANIFEST
                  (''Playlist stale for '' @ show_int elapsed @ ''ms'') ''VIDEO'' None]
          else []))"
    by blast
qed

lemma cycle_changed:
  assumes r: "reportsSequence inp s c" and l: "lastMediaSequence (getState w s) \<noteq> c"
    and s': "s' = fst (checkStream inp s w)" and w': "w' = snd (checkStream inp s w)"
  shows "getState w' s' = \<lparr>lastPollTime = now inp, lastMediaSequence = c, consecutiveStales = 0\<rparr>"
    and "status s' = Online"
    and "\<not> isStale (health s')"
proof -
  from r obtain s1 u m where f: "fetchPhase inp s = Inr (s1, u, m)" and seg: "segments m \<noteq> []"
    and c: "or_else (manifest_mediaSequence m) 0 = c"
    by (auto simp add: reportsSequence_def split: sum.splits prod.splits)
  from l have ne: "c \<noteq> lastMediaSequence (getState w s)"
    by simp
  show "getState w' s' = \<lparr>lastPollTime = now inp, lastMediaSequence = c, consecutiveStales = 0\<rparr>"
    by (simp add: s' w' getState_after [OF f seg] c stalenessCheck_changed [OF ne])
  show "status s' = Online"
    by (simp add: s' checkStream_analysed [OF f seg] analysePlaylist_stream analysed_def c
          stalenessCheck_changed [OF ne])
  show "\<not> isStale (health s')"
    by (simp add: s' checkStream_analysed [OF f seg] analysePlaylist_stream analysed_def c
          stalenessCheck_changed [OF ne])
qed

lemma cycle_first:
  assumes r: "reportsSequence inp s c" and l: "lastMediaSequence (getState w s) = - 1"
    and c: "c \<noteq> - 1"
  shows "streamErrors (fst (checkStream inp s w)) = slice_last 1000 (streamErrors s)"
    and "totalErrors (health (fst (checkStream inp s w))) = totalErrors (health s)"
proof -
  from r obtain s1 u m where f: "fetchPhase inp s = Inr (s1, u, m)" and seg: "segments m \<noteq> []"
    and cm: "or_else (manifest_mediaSequence m) 0 = c"
    by (auto simp add: reportsSequence_def split: sum.splits prod.splits)
  note fs = fetchPhase_Inr [OF f]
  from l c have ne: "c \<noteq> lastMediaSequence (getState w s)"
    by simp
  have a: "analysed inp s1 (getState w s) m = fst (stalenessCheck inp c s1 (getState w s))"
    using l by (simp add: analysed_def cm sequenceChecks_initial)
  show "streamErrors (fst (checkStream inp s w)) = slice_last 1000 (streamErrors s)"
    by (simp add: checkStream_analysed [OF f seg] analysePlaylist_stream a
          stalenessCheck_changed [OF ne] streamErrors_save fs)
  show "totalErrors (health (fst (checkStream inp s w))) = totalErrors (health s)"
    by (simp add: checkStream_analysed [OF f seg] analysePlaylist_stream a
          stalenessCheck_changed [OF ne] fs)
qed

lemma checkStream_saved: "length (streamErrors (fst (checkStream inp s w))) \<le> 1000"
  by (auto simp add: checkStream_def abortCycle_stream analysePlaylist_stream
        length_streamErrors_save split: sum.splits prod.splits)

lemma stale_run:
  assumes "lastMediaSequence (getState w s) = c"
    and "list_all (\<lambda>i. reportsSequence i s c) inps"
    and "length (streamErrors s) \<le> 1000"
  shows "sid (fst (pollCycles inps s w)) = sid s
    \<and> lastMediaSequence (getState (snd (pollCycles inps s w)) (fst (pollCycles inps s w))) = c
    \<and> consecutiveStales (getState (snd (pollCycles inps s w)) (fst (pollCycles inps s w)))
        = consecutiveStales (getState w s) + int (length inps)
    \<and> status (fst (pollCycles inps s w))
        = (if staleHits (staleThreshold (health s)) (lastPollTime (getState w s)) (map now inps) = 0
           then status s else Stale)
    \<and> isStale (health (fst (pollCycles inps s w)))
        = (staleHits (staleThreshold (health s)) (lastPollTime (getState w s)) (map now inps) \<noteq> 0
           \<or> isStale (health s))
    \<and> totalErrors (health (fst (pollCycles inps s w)))
        = totalErrors (health s)
          + int (staleHits (staleThreshold (health s)) (lastPollTime (getState w s)) (map now inps))
    \<and> map errorType (streamErrors (fst (pollCycles inps s w)))
        = slice_last 1000 (map errorType (streamErrors s)
            @ replicate (staleHits (staleThreshold (health s)) (lastPollTime (getState w s))
                           (map now inps)) STALE_MANIFEST)"
  using assms
proof (induction inps arbitrary: s w)
  case Nil
  then show ?case
    by (simp add: slice_last_short)
next
  case (Cons inp rest)
  define s1 where "s1 = fst (checkStream inp s w)"
  define w1 where "w1 = snd (checkStream inp s w)"
  define over where "over = (now inp - lastPollTime (getState w s) > staleThreshold (health s))"
  define d :: nat where "d = (if over then 1 else 0)"
  define h where "h = staleHits (staleThreshold (health s)) (now inp) (map now rest)"
  from Cons.prems have r: "reportsSequence inp s c"
    and rs: "list_all (\<lambda>i. reportsSequence i s c) rest"
    by simp_all
  note k = checkStream_keeps [of inp s w, folded s1_def]
  note cs = cycle_stale [OF r Cons.prems(1) refl s1_def w1_def, folded over_def]
  from cs(1) have g1: "lastMediaSequence (getState w1 s1) = c"
    "lastPollTime (getState w1 s1) = now inp"
    "consecutiveStales (getState w1 s1) = consecutiveStales (getState w s) + 1"
    by simp_all
  from rs reportsSequence_url [OF k(2)] have rs1: "list_all (\<lambda>i. reportsSequence i s1 c) rest"
    by (simp add: list_all_iff)
  have len: "length (streamErrors s1) \<le> 1000"
    unfolding s1_def by (rule checkStream_saved)
  note ih = Cons.IH [OF g1(1) rs1 len, unfolded g1 k, folded h_def]
  have p: "pollCycles (inp # rest) s w = pollCycles rest s1 w1"
    by (simp add: s1_def w1_def split_beta)
  have hits: "staleHits (staleThreshold (health s)) (lastPollTime (getState w s)) (map now (inp # rest))
      = d + h"
    by (simp add: d_def h_def over_def)
  from cs(7) obtain s0 u m where
    led: "streamErrors s1 = slice_last 1000 (streamErrors s @
         (if over
          then [errorEntry (errorId inp (length (streamErrors s)))
                  (errorDate inp (length (streamErrors s))) s0 STALE_MANIFEST
                  (''Playlist stale for '' @ show_int (now inp - lastPollTime (getState w s)) @ ''ms'')
                  ''VIDEO'' None]
          else []))"
    by blast
  have types: "map errorType (streamErrors s1)
      = slice_last 1000 (map errorType (streamErrors s) @ replicate d STALE_MANIFEST)"
    by (simp add: led map_slice_last d_def errorEntry_def)
  have ledger: "map errorType (streamErrors (fst (pollCycles rest s1 w1)))
      = slice_last 1000 (map errorType (streamErrors s) @ replicate (d + h) STALE_MANIFEST)"
    using ih by (simp add: types slice_last_append replicate_add)
  have st: "status (fst (pollCycles rest s1 w1)) = (if d + h = 0 then status s else Stale)"
    using ih cs(2) by (simp add: d_def)
  have stale: "isStale (health (fst (pollCycles rest s1 w1))) = (d + h \<noteq> 0 \<or> isStale (health s))"
    using ih cs(3) by (auto simp add: d_def)
  have tot: "totalErrors (health (fst (pollCycles rest s1 w1)))
      = totalErrors (health s) + int (d + h)"
    using ih cs(4) by (simp add: d_def)
  from ih have rest: "sid (fst (pollCycles rest s1 w1)) = sid s"
    "lastMediaSequence (getState (snd (pollCycles rest s1 w1)) (fst (pollCycles rest s1 w1))) = c"
    "consecutiveStales (getState (snd (pollCycles rest s1 w1)) (fst (pollCycles rest s1 w1)))
        = consecutiveStales (getState w s) + int (length (inp # rest))"
    by simp_all
  from rest st stale tot ledger show ?case
    unfolding p hits by blast
qed

lemma pollCycles_url: "url (fst (pollCycles inps s w)) = url s"
proof (induction inps arbitrary: s w)
  case Nil
  show ?case by simp
next
  case (Cons j js)
  have "pollCycles (j # js) s w
      = pollCycles js (fst (checkStream j s w)) (snd (checkStream j s w))"
    by (simp add: split_beta)
  then show ?case
    by (simp only: Cons.IH checkStream_keeps)
qed

lemma first_then_stale:
  assumes ne: "lastMediaSequence (getState w s) \<noteq> c"
    and r0: "reportsSequence inp0 s c" and rs: "list_all (\<lambda>i. reportsSequence i s c) inps"
    and s1: "s1 = fst (checkStream inp0 s w)"
    and s': "s' = fst (pollCycles (inp0 # inps) s w)"
    and w': "w' = snd (pollCycles (inp0 # inps) s w)"
    and hits: "hits = staleHits (staleThreshold (health s)) (now inp0) (map now inps)"
  shows "sid s' = sid s"
    and "lastMediaSequence (getState w' s') = c"
    and "consecutiveStales (getState w' s') = int (length inps)"
    and "status s' = (if hits = 0 then Online else Stale)"
    and "isStale (health s') = (hits \<noteq> 0)"
    and "totalErrors (health s') = totalErrors (health s1) + int hits"
    and "map errorType (streamErrors s')
        = slice_last 1000 (map errorType (streamErrors s1) @ replicate hits STALE_MANIFEST)"
proof -
  define w1 where "w1 = snd (checkStream inp0 s w)"
  note k = checkStream_keeps [of inp0 s w, folded s1]
  note cc = cycle_changed [OF r0 ne s1 w1_def]
  from cc(1) have g1: "lastMediaSequence (getState w1 s1) = c"
    "lastPollTime (getState w1 s1) = now inp0" "consecutiveStales (getState w1 s1) = 0"
    by simp_all
  from rs reportsSequence_url [OF k(2)] have rs1: "list_all (\<lambda>i. reportsSequence i s1 c) inps"
    by (simp add: list_all_iff)
  have len: "length (streamErrors s1) \<le> 1000"
    unfolding s1 by (rule checkStream_saved)
  have p: "pollCycles (inp0 # inps) s w = pollCycles inps s1 w1"
    by (simp add: s1 w1_def split_beta)
  note run = stale_run [OF g1(1) rs1 len, unfolded g1 k, folded hits, folded p, folded s' w']
  from run k(1) show "sid s' = sid s"
    by simp
  from run show "lastMediaSequence (getState w' s') = c"
    by simp
  from run show "consecutiveStales (getState w' s') = int (length inps)"
    by simp
  from run cc(2) show "status s' = (if hits = 0 then Online else Stale)"
    by simp
  from run cc(3) show "isStale (health s') = (hits \<noteq> 0)"
    by simp
  from run show "totalErrors (health s') = totalErrors (health s1) + int hits"
    by simp
  from run show "map errorType (streamErrors s')
        = slice_last 1000 (map errorType (streamErrors s1) @ replicate hits STALE_MANIFEST)"
    by simp
qed

lemma pollInput_reports: "reportsSequence (pollInput t (Some 5)) s 5"
  using reportsSequence_pollInput [of t 5 s] by (simp add: or_else_def)

lemma pollInput_reports6: "reportsSequence (pollInput t (Some 6)) s 6"
  using reportsSequence_pollInput [of t 6 s] by (simp add: or_else_def)

lemma now_pollInput: "now (pollInput t c) = t"
  by (simp add: pollInput_def)

lemma stream0_fresh:
  "lastMediaSequence (getState world0 stream0) \<noteq> 5"
  "staleThreshold (health stream0) = 7000"
  "streamErrors (fst (checkStream (pollInput 1000 (Some 5)) stream0 world0)) = []"
  "totalErrors (health (fst (checkStream (pollInput 1000 (Some 5)) stream0 world0))) = 0"
proof -
  have l: "lastMediaSequence (getState world0 stream0) = - 1"
    by (simp add: getState_world0 initialState_def)
  then show "lastMediaSequence (getState world0 stream0) \<noteq> 5"
    by simp
  show "staleThreshold (health stream0) = 7000"
    by (simp add: stream0_def health0_def)
  have z: "streamErrors stream0 = []" "totalErrors (health stream0) = 0"
    by (simp_all add: stream0_def health0_def)
  from cycle_first [OF pollInput_reports l, of 1000 ] z
  show "streamErrors (fst (checkStream (pollInput 1000 (Some 5)) stream0 world0)) = []"
    and "totalErrors (health (fst (checkStream (pollInput 1000 (Some 5)) stream0 world0))) = 0"
    by (simp_all add: slice_last_def)
qed

text \<open>
  C1, as the specification states it, fails: the stale branch runs on every cycle of
  the run whose clock is more than the threshold after the previous cycle's, not once.
  With cycles at 1000, 9000 and 17000 that all report sequence 5 and the threshold 7000,
  the second cycle makes the stream stale and appends a \<^verbatim>\<open>STALE_MANIFEST\<close> entry, and the
  third, on the stream that is stale already, appends a second one.
\<close>

theorem stale_error_repeats_counterexample:
  "status (fst (pollCycles (take 2 staleTwice) stream0 world0)) = Stale
   \<and> map errorType (streamErrors (fst (pollCycles (take 2 staleTwice) stream0 world0)))
       = [STALE_MANIFEST]
   \<and> status (fst (pollCycles staleTwice stream0 world0)) = Stale
   \<and> map errorType (streamErrors (fst (pollCycles staleTwice stream0 world0)))
       = [STALE_MANIFEST, STALE_MANIFEST]
   \<and> totalErrors (health (fst (pollCycles staleTwice stream0 world0))) = 2"
proof -
  have h2: "staleHits 7000 1000 (map now [pollInput 9000 (Some 5)]) = 1"
    by (simp add: now_pollInput)
  have h3: "staleHits 7000 1000 (map now [pollInput 9000 (Some 5), pollInput 17000 (Some 5)]) = 2"
    by (simp add: now_pollInput)
  have r2: "list_all (\<lambda>i. reportsSequence i stream0 5) [pollInput 9000 (Some 5)]"
    by (simp add: pollInput_reports)
  have r3: "list_all (\<lambda>i. reportsSequence i stream0 5)
      [pollInput 9000 (Some 5), pollInput 17000 (Some 5)]"
    by (simp add: pollInput_reports)
  note two = first_then_stale [OF stream0_fresh(1) pollInput_reports r2 refl refl refl refl,
      of 1000, unfolded stream0_fresh now_pollInput h2]
  note three = first_then_stale [OF stream0_fresh(1) pollInput_reports r3 refl refl refl refl,
      of 1000, unfolded stream0_fresh now_pollInput h3]
  have t2: "take 2 staleTwice = [pollInput 1000 (Some 5), pollInput 9000 (Some 5)]"
    by (simp add: staleTwice_def)
  from two(4,7) three(4,6,7) show ?thesis
    unfolding t2 staleTwice_def by (simp add: slice_last_def numeral_2_eq_2)
qed

text \<open>
  C1, amended: take a cycle that reports a sequence \<open>c\<close> other than the tracked one, then
  any number of cycles that report \<open>c\<close> again, none of them cut short. Then
  \<open>consecutiveStales\<close> ends at the number of cycles after the first. Each cycle after the
  first whose clock is more than \<open>staleThreshold\<close> after the clock of the cycle before it
  (a hit) sets \<open>isStale\<close>, sets the status to \<^verbatim>\<open>stale\<close> and appends one
  \<^verbatim>\<open>STALE_MANIFEST\<close> entry with the elapsed time; the other cycles leave the status and
  the ledger alone. So the status is \<^verbatim>\<open>online\<close> until the first hit and \<^verbatim>\<open>stale\<close> from
  then on, and the run appends as many \<^verbatim>\<open>STALE_MANIFEST\<close> entries as it has hits. As
  the statement holds for every such list of cycles, it holds after each cycle of a run.
  The next cycle that reports another sequence sets the status to \<^verbatim>\<open>online\<close>, clears
  \<open>isStale\<close> and resets \<open>consecutiveStales\<close>.
\<close>

theorem staleness_run:
  assumes "lastMediaSequence (getState w s) \<noteq> c"
    and "reportsSequence inp0 s c" and "list_all (\<lambda>i. reportsSequence i s c) inps"
    and "s1 = fst (checkStream inp0 s w)"
    and "s' = fst (pollCycles (inp0 # inps) s w)"
    and "w' = snd (pollCycles (inp0 # inps) s w)"
    and "hits = staleHits (staleThreshold (health s)) (now inp0) (map now inps)"
  shows "consecutiveStales (getState w' s') = int (length inps)
    \<and> status s' = (if hits = 0 then Online else Stale)
    \<and> isStale (health s') = (hits \<noteq> 0)
    \<and> totalErrors (health s') = totalErrors (health s1) + int hits
    \<and> map errorType (streamErrors s')
        = slice_last 1000 (map errorType (streamErrors s1) @ replicate hits STALE_MANIFEST)
    \<and> (reportsSequence inp' s c' \<and> c' \<noteq> c \<longrightarrow>
          status (fst (checkStream inp' s' w')) = Online
          \<and> \<not> isStale (health (fst (checkStream inp' s' w')))
          \<and> consecutiveStales
               (getState (snd (checkStream inp' s' w')) (fst (checkStream inp' s' w'))) = 0)
    \<and> (reportsSequence i x c \<and> lastMediaSequence (getState v x) = c
        \<and> staleThreshold (health x) < now i - lastPollTime (getState v x) \<longrightarrow>
          status (fst (checkStream i x v)) = Stale
          \<and> isStale (health (fst (checkStream i x v)))
          \<and> totalErrors (health (fst (checkStream i x v))) = totalErrors (health x) + 1
          \<and> (\<exists>x1 u m. fetchPhase i x = Inr (x1, u, m)
                \<and> streamErrors (fst (checkStream i x v)) =
                    slice_last 1000 (streamErrors x @
                      [errorEntry (errorId i (length (streamErrors x)))
                         (errorDate i (length (streamErrors x))) x1 STALE_MANIFEST
                         (''Playlist stale for ''
                            @ show_int (now i - lastPollTime (getState v x)) @ ''ms'')
                         ''VIDEO'' None])))"
proof (intro conjI impI)
  note run = first_then_stale [OF assms]
  show "consecutiveStales (getState w' s') = int (length inps)"
    and "status s' = (if hits = 0 then Online else Stale)"
    and "isStale (health s') = (hits \<noteq> 0)"
    and "totalErrors (health s') = totalErrors (health s1) + int hits"
    and "map errorType (streamErrors s')
        = slice_last 1000 (map errorType (streamErrors s1) @ replicate hits STALE_MANIFEST)"
    by (rule run)+
  {
    assume a: "reportsSequence inp' s c' \<and> c' \<noteq> c"
    have u: "url s' = url s"
      by (simp only: assms(5) pollCycles_url)
    from a reportsSequence_url [OF u] have r: "reportsSequence inp' s' c'"
      by simp
    from a run(2) have ne: "lastMediaSequence (getState w' s') \<noteq> c'"
      by simp
    note cc = cycle_changed [OF r ne refl refl]
    show "status (fst (checkStream inp' s' w')) = Online"
      by (rule cc(2))
    show "\<not> isStale (health (fst (checkStream inp' s' w')))"
      by (rule cc(3))
    show "consecutiveStales
               (getState (snd (checkStream inp' s' w')) (fst (checkStream inp' s' w'))) = 0"
      using cc(1) by simp
  }
  {
    assume b: "reportsSequence i x c \<and> lastMediaSequence (getState v x) = c
        \<and> staleThreshold (health x) < now i - lastPollTime (getState v x)"
    then have r: "reportsSequence i x c" and l: "lastMediaSequence (getState v x) = c"
      and over: "staleThreshold (health x) < now i - lastPollTime (getState v x)"
      by simp_all
    note cs = cycle_stale [OF r l refl refl refl]
    from cs(2) over show "status (fst (checkStream i x v)) = Stale"
      by simp
    from cs(3) over show "isStale (health (fst (checkStream i x v)))"
      by simp
    from cs(4) over show "totalErrors (health (fst (checkStream i x v))) = totalErrors (health x) + 1"
      by simp
    from cs(7) over show "\<exists>x1 u m. fetchPhase i x = Inr (x1, u, m)
                \<and> streamErrors (fst (checkStream i x v)) =
                    slice_last 1000 (streamErrors x @
                      [errorEntry (errorId i (length (streamErrors x)))
                         (errorDate i (length (streamErrors x))) x1 STALE_MANIFEST
                         (''Playlist stale for ''
                            @ show_int (now i - lastPollTime (getState v x)) @ ''ms'')
                         ''VIDEO'' None])"
      by simp
  }
qed

theorem staleness_run_witness:
  "lastMediaSequence (getState world0 stream0) \<noteq> 5
   \<and> reportsSequence (hd quietRun) stream0 5
   \<and> list_all (\<lambda>i. reportsSequence i stream0 5) (tl quietRun)
   \<and> staleHits (staleThreshold (health stream0)) (now (hd quietRun)) (map now (tl quietRun)) = 2
   \<and> consecutiveStales (getState (snd (pollCycles quietRun stream0 world0))
        (fst (pollCycles quietRun stream0 world0))) = 3
   \<and> status (fst (pollCycles quietRun stream0 world0)) = Stale
   \<and> isStale (health (fst (pollCycles quietRun stream0 world0)))
   \<and> totalErrors (health (fst (pollCycles quietRun stream0 world0))) = 2
   \<and> reportsSequence (pollInput 28000 (Some 6)) stream0 6
   \<and> status (fst (checkStream (pollInput 28000 (Some 6))
        (fst (pollCycles quietRun stream0 world0)) (snd (pollCycles quietRun stream0 world0))))
       = Online
   \<and> lastMediaSequence (getState (tracking 5 1000) stream0) = 5
   \<and> staleThreshold (health stream0) < now (pollInput 9000 (Some 5))
        - lastPollTime (getState (tracking 5 1000) stream0)
   \<and> status (fst (checkStream (pollInput 9000 (Some 5)) stream0 (tracking 5 1000))) = Stale
   \<and> map details (streamErrors (fst (checkStream (pollInput 9000 (Some 5)) stream0
        (tracking 5 1000)))) = [''Playlist stale for 8000ms'']"
proof -
  have q: "quietRun = pollInput 1000 (Some 5)
      # [pollInput 5000 (Some 5), pollInput 13000 (Some 5), pollInput 21000 (Some 5)]"
    by (simp add: quietRun_def)
  have rs: "list_all (\<lambda>i. reportsSequence i stream0 5)
      [pollInput 5000 (Some 5), pollInput 13000 (Some 5), pollInput 21000 (Some 5)]"
    by (simp add: pollInput_reports)
  have h: "staleHits 7000 1000
      (map now [pollInput 5000 (Some 5), pollInput 13000 (Some 5), pollInput 21000 (Some 5)]) = 2"
    by (simp add: now_pollInput)
  have g: "lastMediaSequence (getState (tracking 5 1000) stream0) = 5"
    "lastPollTime (getState (tracking 5 1000) stream0) = 1000"
    by (simp_all add: getState_tracking)
  have z: "streamErrors stream0 = []"
    by (simp add: stream0_def)
  have t: "show_int 8000 = ''8000''"
    by (simp add: show_int_def digit_char_def)
  note run = staleness_run [OF stream0_fresh(1) pollInput_reports rs refl refl refl refl,
      of 1000 "pollInput 28000 (Some 6)" 6 "pollInput 9000 (Some 5)" stream0 "tracking 5 1000",
      unfolded stream0_fresh now_pollInput h, folded q]
  from run pollInput_reports pollInput_reports6 g
  have a: "consecutiveStales (getState (snd (pollCycles quietRun stream0 world0))
        (fst (pollCycles quietRun stream0 world0))) = 3
   \<and> status (fst (pollCycles quietRun stream0 world0)) = Stale
   \<and> isStale (health (fst (pollCycles quietRun stream0 world0)))
   \<and> totalErrors (health (fst (pollCycles quietRun stream0 world0))) = 2
   \<and> status (fst (checkStream (pollInput 28000 (Some 6))
        (fst (pollCycles quietRun stream0 world0)) (snd (pollCycles quietRun stream0 world0))))
       = Online
   \<and> status (fst (checkStream (pollInput 9000 (Some 5)) stream0 (tracking 5 1000))) = Stale"
    by simp
  from run pollInput_reports g
  have "\<exists>x1 u m. fetchPhase (pollInput 9000 (Some 5)) stream0 = Inr (x1, u, m)
      \<and> streamErrors (fst (checkStream (pollInput 9000 (Some 5)) stream0 (tracking 5 1000))) =
          slice_last 1000 (streamErrors stream0 @
            [errorEntry (errorId (pollInput 9000 (Some 5)) (length (streamErrors stream0)))
               (errorDate (pollInput 9000 (Some 5)) (length (streamErrors stream0))) x1
               STALE_MANIFEST
               (''Playlist stale for '' @ show_int (9000 - 1000) @ ''ms'') ''VIDEO'' None])"
    by simp
  then have d: "map details (streamErrors (fst (checkStream (pollInput 9000 (Some 5)) stream0
        (tracking 5 1000)))) = [''Playlist stale for 8000ms'']"
    by (auto simp add: z t slice_last_def errorEntry_def)
  from a d g h show ?thesis
    by (simp add: stream0_fresh now_pollInput pollInput_reports pollInput_reports6 q
          del: pollCycles.simps)
qed

subsection \<open>The health score on the records of the engine\<close>

lemma counters_le_nonneg:
  assumes "counters_le a b" and "0 \<le> sequenceJumps (health a)"
    and "0 \<le> sequenceResets (health a)" and "0 \<le> totalErrors (health a)"
  shows "0 \<le> sequenceJumps (health b)" and "0 \<le> sequenceResets (health b)"
    and "0 \<le> totalErrors (health b)"
  using assms by (simp_all add: counters_le_def)

text \<open>
  C3: the schema gives \<open>sequenceJumps\<close>, \<open>sequenceResets\<close> and \<open>totalErrors\<close> the default
  0 and the engine only increments them, so they are not negative on any record that
  the scorer receives. For every such record the health score is
  \<open>clamp (100 - 30 [isStale] - min (sequenceJumps * 5) 20 - min (sequenceResets * 10) 30
  - min (totalErrors * 2) 20 - 40 [status = error] - 50 [status = offline]) 0 100\<close>, it
  lies between 0 and 100, and the same holds for the record after any sequence of poll
  cycles.
\<close>

theorem calculateHealthScore_formula:
  assumes "0 \<le> sequenceJumps (health s)" and "0 \<le> sequenceResets (health s)"
    and "0 \<le> totalErrors (health s)"
  shows "calculateHealthScore s =
     clamp (100 - 30 * indicator (isStale (health s))
                - min (sequenceJumps (health s) * 5) 20
                - min (sequenceResets (health s) * 10) 30
                - min (totalErrors (health s) * 2) 20
                - 40 * indicator (status s = Error)
                - 50 * indicator (status s = Offline)) 0 100
   \<and> 0 \<le> calculateHealthScore s \<and> calculateHealthScore s \<le> 100
   \<and> calculateHealthScore (fst (pollCycles inps s w))
       = healthScore_spec (fst (pollCycles inps s w))
   \<and> 0 \<le> calculateHealthScore (fst (pollCycles inps s w))
   \<and> calculateHealthScore (fst (pollCycles inps s w)) \<le> 100"
proof (intro conjI)
  from assms have "calculateHealthScore s = healthScore_spec s"
    by (rule calculateHealthScore_spec)
  then show "calculateHealthScore s =
     clamp (100 - 30 * indicator (isStale (health s))
                - min (sequenceJumps (health s) * 5) 20
                - min (sequenceResets (health s) * 10) 30
                - min (totalErrors (health s) * 2) 20
                - 40 * indicator (status s = Error)
                - 50 * indicator (status s = Offline)) 0 100"
    by (simp only: healthScore_spec_def)
  show "0 \<le> calculateHealthScore s" and "calculateHealthScore s \<le> 100"
    using clamp_range by (simp_all only: calculateHealthScore_closed)
  note later = counters_le_nonneg [OF counters_le_pollCycles assms]
  show "calculateHealthScore (fst (pollCycles inps s w))
       = healthScore_spec (fst (pollCycles inps s w))"
    by (rule calculateHealthScore_spec) (rule later)+
  show "0 \<le> calculateHealthScore (fst (pollCycles inps s w))"
    and "calculateHealthScore (fst (pollCycles inps s w)) \<le> 100"
    using clamp_range by (simp_all only: calculateHealthScore_closed)
qed

theorem calculateHealthScore_formula_witness:
  "0 \<le> sequenceJumps (health troubled) \<and> 0 \<le> sequenceResets (health troubled)
   \<and> 0 \<le> totalErrors (health troubled)
   \<and> calculateHealthScore troubled = 44
   \<and> 0 \<le> sequenceJumps (health stream0) \<and> 0 \<le> sequenceResets (health stream0)
   \<and> 0 \<le> totalErrors (health stream0)
   \<and> calculateHealthScore stream0 = 50
   \<and> calculateHealthScore (fst (pollCycles staleTwice stream0 world0))
       = healthScore_spec (fst (pollCycles staleTwice stream0 world0))"
proof -
  have c: "0 \<le> sequenceJumps (health troubled)" "0 \<le> sequenceResets (health troubled)"
    "0 \<le> totalErrors (health troubled)"
    by (simp_all add: troubled_def stream0_def health0_def)
  have c0: "0 \<le> sequenceJumps (health stream0)" "0 \<le> sequenceResets (health stream0)"
    "0 \<le> totalErrors (health stream0)"
    by (simp_all add: stream0_def health0_def)
  from calculateHealthScore_formula [OF c]
  have t: "calculateHealthScore troubled = 44"
    by (simp add: clamp_def indicator_def troubled_def stream0_def health0_def)
  from calculateHealthScore_formula [OF c0]
  have d: "calculateHealthScore stream0 = 50"
    by (simp add: clamp_def indicator_def stream0_def health0_def)
  from calculateHealthScore_formula [OF c0, of staleTwice world0]
  have r: "calculateHealthScore (fst (pollCycles staleTwice stream0 world0))
       = healthScore_spec (fst (pollCycles staleTwice stream0 world0))"
    by blast
  from c c0 t d r show ?thesis
    by simp
qed

end
